theory Spec2Isabelle
  imports Main "HOL-Library.Monad_Syntax" "HOL-Library.Word"
begin

section \<open>Python numbers: the product \<open>size * 0.7\<close> and \<open>int(...)\<close>\<close>

text \<open>
  Line 33 of \<^verbatim>\<open>generate-icons.py\<close> computes \<^verbatim>\<open>int(size * 0.7)\<close>: the integer is
  converted to a binary64 float, multiplied by the float literal \<^verbatim>\<open>0.7\<close> (one rounding,
  to nearest, ties to even) and truncated toward zero. A finite binary64 number is
  modelled by a pair \<open>(m, e)\<close> of integers denoting \<open>m * 2 ^ e\<close>; every operation
  below is exact integer arithmetic on such pairs. Numbers this small are far from the
  subnormal range, so only the 53-bit significand and the overflow bound are modelled.
\<close>

type_synonym double = "int \<times> int"

text \<open>Python's \<^verbatim>\<open>int.bit_length()\<close> on a non-negative integer.\<close>

function bit_length :: "int \<Rightarrow> int" where
  "bit_length n = (if n \<le> 0 then 0 else 1 + bit_length (n div 2))"
  by pat_completeness auto
termination
  by (relation "measure nat") auto

declare bit_length.simps [simp del]

text \<open>\<open>round_half_even p k\<close> is \<open>p / 2 ^ k\<close> rounded to the nearest integer, ties to even.\<close>

definition round_half_even :: "int \<Rightarrow> nat \<Rightarrow> int" where
  "round_half_even p k =
     (let q = p div 2 ^ k; r = p mod 2 ^ k
      in if 2 ^ k < 2 * r \<or> (2 * r = 2 ^ k \<and> odd q) then q + 1 else q)"

text \<open>Rounding of an exact value \<open>m * 2 ^ e\<close> to a 53-bit significand.\<close>

definition round53 :: "double \<Rightarrow> double" where
  "round53 d =
     (case d of (m, e) \<Rightarrow>
        let k = nat (bit_length \<bar>m\<bar> - 53)
        in (sgn m * round_half_even \<bar>m\<bar> k, e + int k))"

text \<open>
  \<^verbatim>\<open>float(i)\<close>, the implicit conversion of the left operand of \<^verbatim>\<open>size * 0.7\<close>:
  \<open>None\<close> is Python's \<^verbatim>\<open>OverflowError\<close> for an integer of magnitude \<open>2 ^ 1024\<close> or more
  after rounding.
\<close>

definition double_of_int :: "int \<Rightarrow> double option" where
  "double_of_int i =
     (let d = round53 (i, 0)
      in if 1024 < bit_length \<bar>fst d\<bar> + snd d then None else Some d)"

definition double_mul :: "double \<Rightarrow> double \<Rightarrow> double" where
  "double_mul a b = round53 (fst a * fst b, snd a + snd b)"

text \<open>\<^verbatim>\<open>int(x)\<close> on a float: truncation toward zero.\<close>

definition int_of_double :: "double \<Rightarrow> int" where
  "int_of_double d =
     (case d of (m, e) \<Rightarrow>
        if 0 \<le> e then m * 2 ^ nat e else sgn m * (\<bar>m\<bar> div 2 ^ nat (- e)))"

text \<open>The float literal \<^verbatim>\<open>0.7\<close>: the binary64 number \<open>0x1.6666666666666p-1\<close>.\<close>

definition double_0_7 :: double where
  "double_0_7 = (6305039478318694, - 53)"

text \<open>Line 33: \<^verbatim>\<open>padded_size = int(size * 0.7)\<close>.\<close>

definition padded_size_of :: "int \<Rightarrow> int option" where
  "padded_size_of sz = do {
     x \<leftarrow> double_of_int sz;
     Some (int_of_double (double_mul x double_0_7))
   }"

text \<open>Line 34: \<^verbatim>\<open>padding = (size - padded_size) // 2\<close> (\<open>div\<close> on \<open>int\<close> floors, as \<^verbatim>\<open>//\<close> does).\<close>

definition padding_of :: "int \<Rightarrow> int \<Rightarrow> int" where
  "padding_of sz padded_size = (sz - padded_size) div 2"

section \<open>The size tables\<close>

text \<open>Lines 16-23, 26 and 57.\<close>

definition android_sizes :: "(int \<times> string) list" where
  "android_sizes =
     [(36, ''ldpi''), (48, ''mdpi''), (72, ''hdpi''),
      (96, ''xhdpi''), (144, ''xxhdpi''), (192, ''xxxhdpi'')]"

definition android_icon_dir :: string where
  "android_icon_dir = ''android/app/src/main/res''"

definition favicon_sizes :: "int list" where
  "favicon_sizes = [16, 32, 48, 64, 128, 256]"

section \<open>Images and the imaging library\<close>

text \<open>
  The script delegates decoding, resampling, mode conversion and PNG encoding to the
  Pillow library. An image is its mode string, its size and its raster; a raster cell
  holds four 8-bit bands, as Pillow stores multi-band pixels. Only cells inside
  \<open>[0, width) \<times> [0, height)\<close> are meaningful. An image without alpha band may still carry
  transparency: \<open>transparency\<close> is the raster value that such an entry marks as
  transparent (Pillow's \<^verbatim>\<open>im.info['transparency']\<close>, read from a PNG \<^verbatim>\<open>tRNS\<close> chunk, or
  an alpha value in a palette), \<open>None\<close> when the image has none.
\<close>

type_synonym byte = "8 word"

type_synonym pixel = "byte \<times> byte \<times> byte \<times> byte"

record image =
  mode :: string
  im_size :: "int \<times> int"
  getpixel :: "int \<times> int \<Rightarrow> pixel"
  transparency :: "pixel option"

definition alpha :: "pixel \<Rightarrow> byte" where
  "alpha px = (case px of (r, g, b, a) \<Rightarrow> a)"

text \<open>
  \<^verbatim>\<open>Image.new(mode, size, color)\<close>: a raster filled with one colour; a negative side
  raises \<^verbatim>\<open>ValueError\<close>.
\<close>

definition image_new :: "string \<Rightarrow> int \<times> int \<Rightarrow> pixel \<Rightarrow> image option" where
  "image_new m sz color =
     (if fst sz < 0 \<or> snd sz < 0 then None
      else Some \<lparr>mode = m, im_size = sz, getpixel = (\<lambda>xy. color), transparency = None\<rparr>)"

text \<open>
  Pillow's masked paste mixes each band as \<open>(in1 * (255 - mask) + in2 * mask) / 255\<close>,
  the division rounded by the shift sequence below: mask 0 keeps the destination, mask
  255 copies the source.
\<close>

definition div255 :: "nat \<Rightarrow> nat" where
  "div255 a = (let tmp = a + 128 in (tmp div 256 + tmp) div 256)"

definition blend :: "byte \<Rightarrow> byte \<Rightarrow> byte \<Rightarrow> byte" where
  "blend msk in1 in2 = of_nat (div255 (unat in1 * (255 - unat msk) + unat in2 * unat msk))"

definition blend_pixel :: "byte \<Rightarrow> pixel \<Rightarrow> pixel \<Rightarrow> pixel" where
  "blend_pixel msk out inp =
     (case out of (r1, g1, b1, a1) \<Rightarrow>
      case inp of (r2, g2, b2, a2) \<Rightarrow>
        (blend msk r1 r2, blend msk g1 g2, blend msk b1 b2, blend msk a1 a2))"

text \<open>
  \<^verbatim>\<open>dst.paste(im, (x, y), mask)\<close> for an RGBA destination, an RGBA source and an RGBA
  mask of the source's size, which is how line 44 calls it (lines 37 and 41-42 fix the
  modes, and the mask is the source itself). The box is the source's size placed at
  \<open>(x, y)\<close> and clipped to the destination; inside it every band is mixed under the
  mask's alpha band, outside it the destination is untouched. The script's in-place
  update is returned as the new image.
\<close>

definition paste :: "image \<Rightarrow> image \<Rightarrow> int \<times> int \<Rightarrow> image \<Rightarrow> image" where
  "paste dst im box msk =
     (let x0 = fst box; y0 = snd box;
          x1 = x0 + fst (im_size im); y1 = y0 + snd (im_size im)
      in dst\<lparr>getpixel := (\<lambda>(x, y).
           if x0 \<le> x \<and> x < x1 \<and> y0 \<le> y \<and> y < y1 \<and>
              0 \<le> x \<and> x < fst (im_size dst) \<and> 0 \<le> y \<and> y < snd (im_size dst)
           then blend_pixel (alpha (getpixel msk (x - x0, y - y0)))
                  (getpixel dst (x, y)) (getpixel im (x - x0, y - y0))
           else getpixel dst (x, y))\<rparr>)"

text \<open>
  The library calls whose results the script cannot compute itself are parameters of the
  model. \<open>'f\<close> is the type of file contents. Each call may raise (\<open>None\<close>):
  \<^item> \<open>image_open\<close>: \<^verbatim>\<open>Image.open\<close> and the decoding of the file's contents;
  \<^item> \<open>resize_lanczos\<close>: \<^verbatim>\<open>im.resize(size, Image.Resampling.LANCZOS)\<close>;
  \<^item> \<open>convert\<close>: \<^verbatim>\<open>im.convert(mode)\<close>;
  \<^item> \<open>save_png\<close>: the PNG encoder that \<^verbatim>\<open>im.save\<close> selects for a \<^verbatim>\<open>.png\<close> name.
  They are functions: the same image and arguments give the same result.
\<close>

record 'f pil =
  image_open :: "'f \<Rightarrow> image option"
  resize_lanczos :: "image \<Rightarrow> int \<times> int \<Rightarrow> image option"
  convert :: "image \<Rightarrow> string \<Rightarrow> image option"
  save_png :: "image \<Rightarrow> 'f option"

text \<open>Modes with an alpha band.\<close>

definition has_alpha :: "string \<Rightarrow> bool" where
  "has_alpha m = (m \<in> {''RGBA'', ''LA'', ''PA'', ''RGBa'', ''La''})"

text \<open>Alpha 255 in every pixel of the raster.\<close>

definition opaque :: "image \<Rightarrow> bool" where
  "opaque im =
     (\<forall>x y. 0 \<le> x \<and> x < fst (im_size im) \<and> 0 \<le> y \<and> y < snd (im_size im) \<longrightarrow>
        alpha (getpixel im (x, y)) = 255)"

text \<open>
  What the proofs assume of the library, from its documentation: a resized image has the
  requested size; a converted image has the requested mode and the size of its source.
\<close>

definition pil_spec :: "'f pil \<Rightarrow> bool" where
  "pil_spec lib =
     ((\<forall>im sz r. resize_lanczos lib im sz = Some r \<longrightarrow> im_size r = sz) \<and>
      (\<forall>im m r. convert lib im m = Some r \<longrightarrow> mode r = m \<and> im_size r = im_size im))"

text \<open>
  The alpha band that \<^verbatim>\<open>convert('RGBA')\<close> adds to an image that has none: 255 in every
  pixel, provided the image carries no transparency entry. (With such an entry the
  conversion carries the transparency over, and the result is not opaque.)
\<close>

definition pil_opaque_spec :: "'f pil \<Rightarrow> bool" where
  "pil_opaque_spec lib =
     (\<forall>im r. convert lib im ''RGBA'' = Some r \<longrightarrow>
        \<not> has_alpha (mode im) \<longrightarrow> transparency im = None \<longrightarrow> opaque r)"

section \<open>The file system and the console\<close>

text \<open>
  The state the script acts on: the set of directories, the contents of the regular
  files, and the text printed so far. Paths are the strings the script passes, relative
  to the working directory; two paths are the same file when they are the same string.
  An operation that raises returns \<open>None\<close>; these functions drop the state an exception
  leaves behind, which the section on runs that raise keeps.
\<close>

record 'f world =
  dirs :: "string set"
  files :: "string \<rightharpoonup> 'f"
  stdout :: string

text \<open>\<^verbatim>\<open>os.path.exists\<close>: true of directories and of files.\<close>

definition path_exists :: "'f world \<Rightarrow> string \<Rightarrow> bool" where
  "path_exists w p = (p \<in> dirs w \<or> files w p \<noteq> None)"

text \<open>\<^verbatim>\<open>print(s)\<close> writes the text and a newline.\<close>

definition py_print :: "string \<Rightarrow> 'f world \<Rightarrow> 'f world" where
  "py_print s w = w\<lparr>stdout := stdout w @ s @ [CHR 0x0A]\<rparr>"

text \<open>The directory part of a path: what precedes its last slash.\<close>

definition dirname :: "string \<Rightarrow> string" where
  "dirname p = rev (drop 1 (dropWhile (\<lambda>c. c \<noteq> CHR ''/'') (rev p)))"

text \<open>
  The ancestors of a path, outermost first, and the path itself: for \<^verbatim>\<open>a/b/c\<close> the list
  \<^verbatim>\<open>a\<close>, \<^verbatim>\<open>a/b\<close>, \<^verbatim>\<open>a/b/c\<close>. The first argument is the part already read.
\<close>

fun path_prefixes :: "string \<Rightarrow> string \<Rightarrow> string list" where
  "path_prefixes acc [] = (if acc = [] then [] else [acc])"
| "path_prefixes acc (c # cs) =
     (if c = CHR ''/'' \<and> acc \<noteq> [] then acc # path_prefixes (acc @ [c]) cs
      else path_prefixes (acc @ [c]) cs)"

text \<open>
  \<^verbatim>\<open>os.makedirs(name, exist_ok=True)\<close>: every ancestor and the leaf become directories;
  an existing directory is left as it is, a regular file in the way raises.
\<close>

fun mkdirs :: "string list \<Rightarrow> 'f world \<Rightarrow> 'f world option" where
  "mkdirs [] w = Some w"
| "mkdirs (d # ds) w =
     (if files w d \<noteq> None then None else mkdirs ds (w\<lparr>dirs := insert d (dirs w)\<rparr>))"

definition makedirs :: "string \<Rightarrow> 'f world \<Rightarrow> 'f world option" where
  "makedirs name w = mkdirs (path_prefixes [] name) w"

text \<open>
  Opening a path for writing and storing the contents: raises when the path is a
  directory or when its directory part does not exist; otherwise creates or overwrites.
\<close>

definition write_file :: "string \<Rightarrow> 'f \<Rightarrow> 'f world \<Rightarrow> 'f world option" where
  "write_file p c w =
     (if p \<in> dirs w \<or> (dirname p \<noteq> [] \<and> dirname p \<notin> dirs w) then None
      else Some (w\<lparr>files := (files w)(p \<mapsto> c)\<rparr>))"

text \<open>\<^verbatim>\<open>Image.open(path)\<close>: a directory or a missing file raises, as does undecodable data.\<close>

definition open_image :: "'f pil \<Rightarrow> string \<Rightarrow> 'f world \<Rightarrow> image option" where
  "open_image lib p w = (case files w p of None \<Rightarrow> None | Some c \<Rightarrow> image_open lib c)"

text \<open>\<^verbatim>\<open>im.save(path)\<close> with a \<^verbatim>\<open>.png\<close> path.\<close>

definition save :: "'f pil \<Rightarrow> image \<Rightarrow> string \<Rightarrow> 'f world \<Rightarrow> 'f world option" where
  "save lib im p w = do { c \<leftarrow> save_png lib im; write_file p c w }"

text \<open>\<^verbatim>\<open>str(n)\<close> for an integer, as the f-strings of lines 54, 60 and 61 format it.\<close>

function str_nat :: "nat \<Rightarrow> string" where
  "str_nat n =
     (if n < 10 then [char_of (48 + n)]
      else str_nat (n div 10) @ [char_of (48 + n mod 10)])"
  by pat_completeness auto
termination
  by (relation "measure id") auto

declare str_nat.simps [simp del]

definition str_int :: "int \<Rightarrow> string" where
  "str_int i = (if i < 0 then CHR ''-'' # str_nat (nat (- i)) else str_nat (nat i))"

section \<open>The generator\<close>

text \<open>The three emoji of the messages, as their UTF-8 bytes.\<close>

definition check_mark :: string where
  "check_mark = [CHR 0xE2, CHR 0x9C, CHR 0x85]"

definition party_popper :: string where
  "party_popper = [CHR 0xF0, CHR 0x9F, CHR 0x8E, CHR 0x89]"

definition clipboard :: string where
  "clipboard = [CHR 0xF0, CHR 0x9F, CHR 0x93, CHR 0x8B]"

text \<open>Line 29: \<^verbatim>\<open>icon_dir = f"{android_icon_dir}/mipmap-{density}"\<close>.\<close>

definition icon_dir_of :: "string \<Rightarrow> string" where
  "icon_dir_of density = android_icon_dir @ ''/mipmap-'' @ density"

text \<open>Line 60: the path \<^verbatim>\<open>f"www/assets/images/favicon-{size}.png"\<close>.\<close>

definition favicon_file :: "int \<Rightarrow> string" where
  "favicon_file sz = ''www/assets/images/favicon-'' @ str_int sz @ ''.png''"

text \<open>Lines 41-42: \<^verbatim>\<open>if logo_resized.mode != 'RGBA': logo_resized = logo_resized.convert('RGBA')\<close>.\<close>

definition ensure_rgba :: "'f pil \<Rightarrow> image \<Rightarrow> image option" where
  "ensure_rgba lib logo_resized =
     (if mode logo_resized \<noteq> ''RGBA'' then convert lib logo_resized ''RGBA''
      else Some logo_resized)"

text \<open>Lines 33-44: the padded foreground layer of one Android size.\<close>

definition make_foreground :: "'f pil \<Rightarrow> image \<Rightarrow> int \<Rightarrow> image option" where
  "make_foreground lib logo sz = do {
     padded_size \<leftarrow> padded_size_of sz;
     let padding = padding_of sz padded_size;
     foreground \<leftarrow> image_new ''RGBA'' (sz, sz) (0, 0, 0, 0);
     logo_resized \<leftarrow> resize_lanczos lib logo (padded_size, padded_size);
     logo_resized \<leftarrow> ensure_rgba lib logo_resized;
     Some (paste foreground logo_resized (padding, padding) logo_resized)
   }"

text \<open>Lines 29-54: the body of the loop over the Android table.\<close>

definition android_step ::
  "'f pil \<Rightarrow> image \<Rightarrow> int \<times> string \<Rightarrow> 'f world \<Rightarrow> 'f world option" where
  "android_step lib logo entry w =
     (case entry of (sz, density) \<Rightarrow> do {
        let icon_dir = icon_dir_of density;
        w \<leftarrow> makedirs icon_dir w;
        foreground \<leftarrow> make_foreground lib logo sz;
        resized \<leftarrow> resize_lanczos lib logo (sz, sz);
        w \<leftarrow> save lib resized (icon_dir @ ''/ic_launcher.png'') w;
        w \<leftarrow> save lib resized (icon_dir @ ''/ic_launcher_round.png'') w;
        w \<leftarrow> save lib foreground (icon_dir @ ''/ic_launcher_foreground.png'') w;
        Some (py_print (check_mark @ '' Generated '' @ str_int sz @ ''x'' @ str_int sz @
                        '' icons for '' @ density) w)
      })"

fun android_loop ::
  "'f pil \<Rightarrow> image \<Rightarrow> (int \<times> string) list \<Rightarrow> 'f world \<Rightarrow> 'f world option" where
  "android_loop lib logo [] w = Some w"
| "android_loop lib logo (entry # rest) w = do {
     w \<leftarrow> android_step lib logo entry w;
     android_loop lib logo rest w
   }"

text \<open>Lines 59-61: the body of the loop over the favicon sizes.\<close>

definition favicon_step :: "'f pil \<Rightarrow> image \<Rightarrow> int \<Rightarrow> 'f world \<Rightarrow> 'f world option" where
  "favicon_step lib logo sz w = do {
     resized \<leftarrow> resize_lanczos lib logo (sz, sz);
     w \<leftarrow> save lib resized (favicon_file sz) w;
     Some (py_print (check_mark @ '' Generated favicon-'' @ str_int sz @ ''.png'') w)
   }"

fun favicon_loop :: "'f pil \<Rightarrow> image \<Rightarrow> int list \<Rightarrow> 'f world \<Rightarrow> 'f world option" where
  "favicon_loop lib logo [] w = Some w"
| "favicon_loop lib logo (sz # rest) w = do {
     w \<leftarrow> favicon_step lib logo sz w;
     favicon_loop lib logo rest w
   }"

text \<open>Lines 63-67: the closing messages.\<close>

definition print_summary :: "'f world \<Rightarrow> 'f world" where
  "print_summary w =
     py_print ''   3. Rebuild Android: npx cap build android''
       (py_print ''   2. Run: python generate-icons.py''
         (py_print ''   1. Replace www/assets/images/logo.png with your 512x512 PNG''
           (py_print (clipboard @ '' To use your own logo:'')
             (py_print (CHR 0x0A # party_popper @ '' All app icons generated!'') w))))"

text \<open>
  Lines 4-67. \<open>Some w'\<close> is a normal return in the state \<open>w'\<close>, \<open>None\<close> an exception.
\<close>

definition generate_app_icons :: "'f pil \<Rightarrow> string \<Rightarrow> 'f world \<Rightarrow> 'f world option" where
  "generate_app_icons lib logo_path w =
     (if \<not> path_exists w logo_path then
        Some (py_print ''Recommended: 512x512 PNG with transparent background''
               (py_print (''Please add your logo as: '' @ logo_path) w))
      else do {
        logo \<leftarrow> open_image lib logo_path w;
        w \<leftarrow> android_loop lib logo android_sizes w;
        w \<leftarrow> favicon_loop lib logo favicon_sizes w;
        Some (print_summary w)
      })"

text \<open>Lines 69-70: the script run as a program uses the default path.\<close>

definition main :: "'f pil \<Rightarrow> 'f world \<Rightarrow> 'f world option" where
  "main lib w = generate_app_icons lib ''www/assets/images/logo.png'' w"

section \<open>Runs that raise\<close>

text \<open>
  The same lines once more, as functions that keep the state in which a call raises:
  \<open>Returned w\<close> is a normal return in the state \<open>w\<close>, \<open>Raised w\<close> an exception that leaves
  the state \<open>w\<close> behind. Two things are parameters here:
  \<^item> \<open>resolve\<close>, from the source path as it is spelled to the path that names the same
    file in the state (\<^verbatim>\<open>./www/assets/images/logo.png\<close> and
    \<^verbatim>\<open>www/assets/images/logo.png\<close> are one file). The paths the script builds itself are
    taken to name themselves;
  \<open>resolve_plain\<close> below is the resolution of relative paths without \<^verbatim>\<open>..\<close>.
  \<^item> \<open>residue\<close>, what a save leaves at its path when the encoder raises after the file has
    been opened for writing, from the image and what was there before: nothing, the old
    contents or a partial file.
  Lemma \<open>normal_return_generate\<close> proves that these functions return normally exactly
  when those of the previous section do, in the same state.
\<close>

datatype 'f outcome = Returned "'f world" | Raised "'f world"

fun state_of :: "'f outcome \<Rightarrow> 'f world" where
  "state_of (Returned w) = w"
| "state_of (Raised w) = w"

fun returned :: "'f outcome \<Rightarrow> bool" where
  "returned (Returned w) = True"
| "returned (Raised w) = False"

fun normal_return :: "'f outcome \<Rightarrow> 'f world option" where
  "normal_return (Returned w) = Some w"
| "normal_return (Raised w) = None"

text \<open>Sequencing: what follows a call that raised is not run.\<close>

fun and_then :: "'f outcome \<Rightarrow> ('f world \<Rightarrow> 'f outcome) \<Rightarrow> 'f outcome" where
  "and_then (Returned w) f = f w"
| "and_then (Raised w) f = Raised w"

type_synonym 'f residue = "image \<Rightarrow> 'f option \<Rightarrow> 'f option"

text \<open>
  \<^verbatim>\<open>os.makedirs(name, exist_ok=True)\<close>: the ancestors made before the one that raises
  stay.
\<close>

fun run_mkdirs :: "string list \<Rightarrow> 'f world \<Rightarrow> 'f outcome" where
  "run_mkdirs [] w = Returned w"
| "run_mkdirs (d # ds) w =
     (if files w d \<noteq> None then Raised w else run_mkdirs ds (w\<lparr>dirs := insert d (dirs w)\<rparr>))"

definition run_makedirs :: "string \<Rightarrow> 'f world \<Rightarrow> 'f outcome" where
  "run_makedirs name w = run_mkdirs (path_prefixes [] name) w"

text \<open>
  \<^verbatim>\<open>im.save(path)\<close>: the file is opened for writing first, which raises without any change
  when the path is a directory or its directory part does not exist; then the image is
  encoded, and an encoder that raises leaves the residue at the path.
\<close>

definition run_save :: "'f pil \<Rightarrow> 'f residue \<Rightarrow> image \<Rightarrow> string \<Rightarrow> 'f world \<Rightarrow> 'f outcome" where
  "run_save lib residue im p w =
     (if p \<in> dirs w \<or> (dirname p \<noteq> [] \<and> dirname p \<notin> dirs w) then Raised w
      else case save_png lib im of
        None \<Rightarrow> Raised (w\<lparr>files := (files w)(p := residue im (files w p))\<rparr>)
      | Some c \<Rightarrow> Returned (w\<lparr>files := (files w)(p \<mapsto> c)\<rparr>))"

text \<open>Lines 29-54.\<close>

definition run_android_step ::
  "'f pil \<Rightarrow> 'f residue \<Rightarrow> image \<Rightarrow> int \<times> string \<Rightarrow> 'f world \<Rightarrow> 'f outcome" where
  "run_android_step lib residue logo entry w =
     (case entry of (sz, density) \<Rightarrow>
        let icon_dir = icon_dir_of density in
        and_then (run_makedirs icon_dir w) (\<lambda>w.
          case make_foreground lib logo sz of
            None \<Rightarrow> Raised w
          | Some foreground \<Rightarrow>
              (case resize_lanczos lib logo (sz, sz) of
                 None \<Rightarrow> Raised w
               | Some resized \<Rightarrow>
                   and_then (run_save lib residue resized (icon_dir @ ''/ic_launcher.png'') w) (\<lambda>w.
                   and_then (run_save lib residue resized (icon_dir @ ''/ic_launcher_round.png'') w) (\<lambda>w.
                   and_then (run_save lib residue foreground
                               (icon_dir @ ''/ic_launcher_foreground.png'') w) (\<lambda>w.
                   Returned (py_print (check_mark @ '' Generated '' @ str_int sz @ ''x'' @
                                       str_int sz @ '' icons for '' @ density) w)))))))"

fun run_android_loop ::
  "'f pil \<Rightarrow> 'f residue \<Rightarrow> image \<Rightarrow> (int \<times> string) list \<Rightarrow> 'f world \<Rightarrow> 'f outcome" where
  "run_android_loop lib residue logo [] w = Returned w"
| "run_android_loop lib residue logo (entry # rest) w =
     and_then (run_android_step lib residue logo entry w)
       (run_android_loop lib residue logo rest)"

text \<open>Lines 59-61.\<close>

definition run_favicon_step ::
  "'f pil \<Rightarrow> 'f residue \<Rightarrow> image \<Rightarrow> int \<Rightarrow> 'f world \<Rightarrow> 'f outcome" where
  "run_favicon_step lib residue logo sz w =
     (case resize_lanczos lib logo (sz, sz) of
        None \<Rightarrow> Raised w
      | Some resized \<Rightarrow>
          and_then (run_save lib residue resized (favicon_file sz) w) (\<lambda>w.
          Returned (py_print (check_mark @ '' Generated favicon-'' @ str_int sz @ ''.png'') w)))"

fun run_favicon_loop ::
  "'f pil \<Rightarrow> 'f residue \<Rightarrow> image \<Rightarrow> int list \<Rightarrow> 'f world \<Rightarrow> 'f outcome" where
  "run_favicon_loop lib residue logo [] w = Returned w"
| "run_favicon_loop lib residue logo (sz # rest) w =
     and_then (run_favicon_step lib residue logo sz w)
       (run_favicon_loop lib residue logo rest)"

text \<open>
  Lines 4-67. The existence test and \<^verbatim>\<open>Image.open\<close> reach the file that the source path
  names; the message of line 8 prints the path as it was passed. An image whose data
  fails to decode only when it is first used raises at the first resize, inside the
  first pass of the loop: that is a library whose \<open>resize_lanczos\<close> returns \<open>None\<close>.
\<close>

definition run_generate_app_icons ::
  "'f pil \<Rightarrow> 'f residue \<Rightarrow> (string \<Rightarrow> string) \<Rightarrow> string \<Rightarrow> 'f world \<Rightarrow> 'f outcome" where
  "run_generate_app_icons lib residue resolve logo_path w =
     (if \<not> path_exists w (resolve logo_path) then
        Returned (py_print ''Recommended: 512x512 PNG with transparent background''
                   (py_print (''Please add your logo as: '' @ logo_path) w))
      else case open_image lib (resolve logo_path) w of
        None \<Rightarrow> Raised w
      | Some logo \<Rightarrow>
          and_then (run_android_loop lib residue logo android_sizes w) (\<lambda>w.
          and_then (run_favicon_loop lib residue logo favicon_sizes w) (\<lambda>w.
          Returned (print_summary w))))"

text \<open>
  The resolution of a relative path without \<^verbatim>\<open>..\<close> component and without trailing
  slash, in a tree without symbolic links: empty components and \<^verbatim>\<open>.\<close> components are
  skipped.
\<close>

fun path_components :: "string \<Rightarrow> string \<Rightarrow> string list" where
  "path_components acc [] = [acc]"
| "path_components acc (c # cs) =
     (if c = CHR ''/'' then acc # path_components [] cs else path_components (acc @ [c]) cs)"

fun join_path :: "string list \<Rightarrow> string" where
  "join_path [] = []"
| "join_path [c] = c"
| "join_path (c # d # cs) = c @ ''/'' @ join_path (d # cs)"

definition resolve_plain :: "string \<Rightarrow> string" where
  "resolve_plain p = join_path (filter (\<lambda>c. c \<noteq> [] \<and> c \<noteq> ''.'') (path_components [] p))"

text \<open>
  \<open>effects_within D F w w'\<close>: from \<open>w\<close> to \<open>w'\<close> no directory has gone, every new directory
  is in \<open>D\<close>, and every file outside \<open>F\<close> is as it was (created, changed or removed files
  all lie in \<open>F\<close>).
\<close>

definition effects_within :: "string set \<Rightarrow> string set \<Rightarrow> 'f world \<Rightarrow> 'f world \<Rightarrow> bool" where
  "effects_within D F w w' =
     (dirs w \<subseteq> dirs w' \<and> dirs w' \<subseteq> dirs w \<union> D \<and> (\<forall>p. p \<notin> F \<longrightarrow> files w' p = files w p))"

section \<open>The outputs of a run\<close>

text \<open>
  A description of a whole run in closed form, used to state and prove the properties of
  the loops: which directories are created, which paths are written, and with which
  contents. Lemma \<open>generate_app_icons_Some\<close> below proves that the loops of
  \<open>generate_app_icons\<close> return normally exactly when these contents exist and the file
  system admits the directories and files, and that the state they return is
  \<open>run_result\<close>.

  The directories that \<^verbatim>\<open>os.makedirs\<close> ensures for one density, and the three files of
  lines 48, 49 and 52.
\<close>

definition android_dirs :: "string \<Rightarrow> string list" where
  "android_dirs density = path_prefixes [] (icon_dir_of density)"

definition android_files :: "string \<Rightarrow> string list" where
  "android_files density =
     [icon_dir_of density @ ''/ic_launcher.png'',
      icon_dir_of density @ ''/ic_launcher_round.png'',
      icon_dir_of density @ ''/ic_launcher_foreground.png'']"

text \<open>
  The contents saved for one Android size: those of \<open>ic_launcher.png\<close> and
  \<open>ic_launcher_round.png\<close> (one image, saved twice) and those of
  \<open>ic_launcher_foreground.png\<close>; \<open>None\<close> when a library call raises.
\<close>

definition android_contents :: "'f pil \<Rightarrow> image \<Rightarrow> int \<Rightarrow> ('f \<times> 'f) option" where
  "android_contents lib logo sz = do {
     foreground \<leftarrow> make_foreground lib logo sz;
     resized \<leftarrow> resize_lanczos lib logo (sz, sz);
     c \<leftarrow> save_png lib resized;
     cf \<leftarrow> save_png lib foreground;
     Some (c, cf)
   }"

text \<open>What line 54 prints, and the files of one pass of the loop as a map.\<close>

definition android_message :: "int \<times> string \<Rightarrow> string" where
  "android_message entry =
     (case entry of (sz, density) \<Rightarrow>
        check_mark @ '' Generated '' @ str_int sz @ ''x'' @ str_int sz @
        '' icons for '' @ density @ [CHR 0x0A])"

definition android_map :: "'f pil \<Rightarrow> image \<Rightarrow> int \<times> string \<Rightarrow> (string \<rightharpoonup> 'f)" where
  "android_map lib logo entry =
     (case entry of (sz, density) \<Rightarrow>
        case android_contents lib logo sz of
          None \<Rightarrow> Map.empty
        | Some (c, cf) \<Rightarrow>
            [icon_dir_of density @ ''/ic_launcher.png'' \<mapsto> c,
             icon_dir_of density @ ''/ic_launcher_round.png'' \<mapsto> c,
             icon_dir_of density @ ''/ic_launcher_foreground.png'' \<mapsto> cf])"

text \<open>The same for a whole table: a later entry overrides an earlier one.\<close>

fun android_outputs :: "'f pil \<Rightarrow> image \<Rightarrow> (int \<times> string) list \<Rightarrow> (string \<rightharpoonup> 'f)" where
  "android_outputs lib logo [] = Map.empty"
| "android_outputs lib logo (entry # rest) =
     android_map lib logo entry ++ android_outputs lib logo rest"

definition android_dirs_all :: "(int \<times> string) list \<Rightarrow> string list" where
  "android_dirs_all tbl = concat (map (\<lambda>(sz, density). android_dirs density) tbl)"

definition android_files_all :: "(int \<times> string) list \<Rightarrow> string list" where
  "android_files_all tbl = concat (map (\<lambda>(sz, density). android_files density) tbl)"

definition android_stdout :: "(int \<times> string) list \<Rightarrow> string" where
  "android_stdout tbl = concat (map android_message tbl)"

text \<open>The favicon loop, likewise: contents, message and files.\<close>

definition favicon_content :: "'f pil \<Rightarrow> image \<Rightarrow> int \<Rightarrow> 'f option" where
  "favicon_content lib logo sz = do {
     resized \<leftarrow> resize_lanczos lib logo (sz, sz);
     save_png lib resized
   }"

definition favicon_message :: "int \<Rightarrow> string" where
  "favicon_message sz = check_mark @ '' Generated favicon-'' @ str_int sz @ ''.png'' @ [CHR 0x0A]"

definition favicon_map :: "'f pil \<Rightarrow> image \<Rightarrow> int \<Rightarrow> (string \<rightharpoonup> 'f)" where
  "favicon_map lib logo sz =
     (case favicon_content lib logo sz of
        None \<Rightarrow> Map.empty
      | Some c \<Rightarrow> [favicon_file sz \<mapsto> c])"

fun favicon_outputs :: "'f pil \<Rightarrow> image \<Rightarrow> int list \<Rightarrow> (string \<rightharpoonup> 'f)" where
  "favicon_outputs lib logo [] = Map.empty"
| "favicon_outputs lib logo (sz # rest) =
     favicon_map lib logo sz ++ favicon_outputs lib logo rest"

definition favicon_stdout :: "int list \<Rightarrow> string" where
  "favicon_stdout szs = concat (map favicon_message szs)"

text \<open>
  The whole run: the directories ensured, the paths written, the contents written, the
  condition that every library call of the run succeeds, the condition on the starting
  file system under which no directory creation and no write raises, and the final
  state.
\<close>

definition created_dirs :: "string list" where
  "created_dirs = android_dirs_all android_sizes"

definition output_files :: "string list" where
  "output_files = android_files_all android_sizes @ map favicon_file favicon_sizes"

definition outputs :: "'f pil \<Rightarrow> image \<Rightarrow> (string \<rightharpoonup> 'f)" where
  "outputs lib logo =
     android_outputs lib logo android_sizes ++ favicon_outputs lib logo favicon_sizes"

definition outputs_ok :: "'f pil \<Rightarrow> image \<Rightarrow> bool" where
  "outputs_ok lib logo =
     ((\<forall>(sz, density)\<in>set android_sizes. android_contents lib logo sz \<noteq> None) \<and>
      (\<forall>sz\<in>set favicon_sizes. favicon_content lib logo sz \<noteq> None))"

definition fs_ready :: "'f world \<Rightarrow> bool" where
  "fs_ready w =
     ((\<forall>d\<in>set created_dirs. files w d = None) \<and>
      (\<forall>p\<in>set output_files. p \<notin> dirs w) \<and>
      ''www/assets/images'' \<in> dirs w)"

definition run_result :: "'f pil \<Rightarrow> image \<Rightarrow> 'f world \<Rightarrow> 'f world" where
  "run_result lib logo w =
     print_summary
       (w\<lparr>dirs := dirs w \<union> set created_dirs,
          files := files w ++ outputs lib logo,
          stdout := stdout w @ android_stdout android_sizes @ favicon_stdout favicon_sizes\<rparr>)"

section \<open>A small instance\<close>

text \<open>
  A concrete library and concrete starting states, at which the theorems below are
  instantiated. File contents are the images themselves: the decoder and the encoder are
  the identity, resizing keeps the raster function and the transparency entry and
  changes the size, and conversion sets the mode and fills a missing alpha band: with 0
  where the raster holds the value that the transparency entry marks, with 255
  elsewhere. The library meets \<open>pil_spec\<close> and \<open>pil_opaque_spec\<close> (lemmas
  \<open>example_pil_spec\<close> and \<open>example_pil_opaque_spec\<close>).

  \<open>example_logo\<close> is an opaque red RGB square of 512 pixels without transparency entry;
  \<open>palette_logo\<close> is a palette image of 512 pixels whose every pixel is palette index 0,
  marked transparent. In \<open>example_world\<close> the first lies at the default path, in
  \<open>aliased_world\<close> at the path of the 16-pixel favicon; in \<open>palette_world\<close> the second
  lies at the default path; in \<open>directory_world\<close> the default path is a directory.
\<close>

definition example_pil :: "image pil" where
  "example_pil =
     \<lparr>image_open = Some,
      resize_lanczos = (\<lambda>im sz. Some (im\<lparr>im_size := sz\<rparr>)),
      convert = (\<lambda>im m. Some (im\<lparr>mode := m,
        getpixel := (\<lambda>xy. case getpixel im xy of (r, g, b, a) \<Rightarrow>
                        (r, g, b,
                         if has_alpha (mode im) then a
                         else if transparency im = Some (getpixel im xy) then 0 else 255)),
        transparency := None\<rparr>)),
      save_png = Some\<rparr>"

definition example_logo :: image where
  "example_logo =
     \<lparr>mode = ''RGB'', im_size = (512, 512), getpixel = (\<lambda>xy. (255, 0, 0, 255)),
      transparency = None\<rparr>"

definition palette_logo :: image where
  "palette_logo =
     \<lparr>mode = ''P'', im_size = (512, 512), getpixel = (\<lambda>xy. (0, 0, 0, 0)),
      transparency = Some (0, 0, 0, 0)\<rparr>"

definition example_world :: "image world" where
  "example_world =
     \<lparr>dirs = {''www'', ''www/assets'', ''www/assets/images''},
      files = [''www/assets/images/logo.png'' \<mapsto> example_logo],
      stdout = []\<rparr>"

definition aliased_world :: "image world" where
  "aliased_world =
     \<lparr>dirs = {''www'', ''www/assets'', ''www/assets/images''},
      files = [''www/assets/images/favicon-16.png'' \<mapsto> example_logo],
      stdout = []\<rparr>"

definition palette_world :: "image world" where
  "palette_world =
     \<lparr>dirs = {''www'', ''www/assets'', ''www/assets/images''},
      files = [''www/assets/images/logo.png'' \<mapsto> palette_logo],
      stdout = []\<rparr>"

definition directory_world :: "image world" where
  "directory_world =
     \<lparr>dirs = {''www'', ''www/assets'', ''www/assets/images'', ''www/assets/images/logo.png''},
      files = Map.empty,
      stdout = []\<rparr>"

text \<open>A file system on which a save that fails leaves no file behind.\<close>

definition example_residue :: "image residue" where
  "example_residue im old = None"

section \<open>The padding computation\<close>

text \<open>
  The constant \<open>double_0_7\<close> is the binary64 number nearest to \<open>7/10\<close>: its significand
  has 53 bits, and it differs from \<open>7/10\<close> by \<open>4 / (10 * 2 ^ 53)\<close>, less than half a unit
  in the last place (\<open>5 / (10 * 2 ^ 53)\<close>).
\<close>

lemma double_0_7_nearest:
  "bit_length \<bar>fst double_0_7\<bar> = 53 \<and> snd double_0_7 = - 53 \<and>
   \<bar>10 * fst double_0_7 - 7 * 2 ^ 53\<bar> < (5 :: int)"
  by code_simp

lemma padded_size_of_table:
  "map (\<lambda>(sz, density). padded_size_of sz) android_sizes =
   [Some 25, Some 33, Some 50, Some 67, Some 100, Some 134]"
  by code_simp

text \<open>
  C3. For every entry \<open>(pixelSize, densityLabel)\<close> of the Android table, the binary
  floating-point computation \<^verbatim>\<open>int(size * 0.7)\<close> of line 33 returns the exact
  mathematical value \<open>floor (7 * pixelSize / 10)\<close>, and line 34 yields
  \<open>offset = floor ((pixelSize - paddedSize) / 2)\<close>.
\<close>

theorem C3_padding_computation:
  "\<forall>(sz, density) \<in> set android_sizes.
     padded_size_of sz = Some (7 * sz div 10) \<and>
     padding_of sz (7 * sz div 10) = (sz - 7 * sz div 10) div 2"
  by code_simp

theorem C3_padding_computation_witness:
  "(48, ''mdpi'') \<in> set android_sizes \<and>
   padded_size_of 48 = Some 33 \<and> padding_of 48 33 = 7"
proof -
  have mem: "(48, ''mdpi'') \<in> set android_sizes"
    by (simp add: android_sizes_def)
  from C3_padding_computation mem
  have "case (48 :: int, ''mdpi'') of (sz, density) \<Rightarrow>
          padded_size_of sz = Some (7 * sz div 10) \<and>
          padding_of sz (7 * sz div 10) = (sz - 7 * sz div 10) div 2"
    by (rule bspec)
  then show ?thesis using mem by simp
qed

text \<open>
  C4. For every entry of the Android table the derived padding values satisfy
  \<open>offset * 2 + paddedSize \<le> pixelSize\<close>.
\<close>

theorem C4_padding_invariant:
  "\<forall>(sz, density) \<in> set android_sizes.
     \<exists>padded_size. padded_size_of sz = Some padded_size \<and>
       padding_of sz padded_size * 2 + padded_size \<le> sz"
  by (simp add: android_sizes_def padding_of_def
      padded_size_of_table [unfolded android_sizes_def, simplified])

theorem C4_padding_invariant_witness:
  "(36, ''ldpi'') \<in> set android_sizes \<and>
   (\<exists>padded_size. padded_size_of 36 = Some padded_size \<and>
      padding_of 36 padded_size * 2 + padded_size \<le> 36)"
proof -
  have mem: "(36, ''ldpi'') \<in> set android_sizes"
    by (simp add: android_sizes_def)
  from C4_padding_invariant mem
  have "case (36 :: int, ''ldpi'') of (sz, density) \<Rightarrow>
          \<exists>padded_size. padded_size_of sz = Some padded_size \<and>
            padding_of sz padded_size * 2 + padded_size \<le> sz"
    by (rule bspec)
  then show ?thesis using mem by simp
qed


section \<open>The file system\<close>

lemma mkdirs_Some:
  "mkdirs ds w = Some w' \<longleftrightarrow> (\<forall>d\<in>set ds. files w d = None) \<and> w' = w\<lparr>dirs := dirs w \<union> set ds\<rparr>"
  by (induction ds arbitrary: w) auto

lemma write_file_Some:
  "write_file p c w = Some w' \<longleftrightarrow>
     p \<notin> dirs w \<and> (dirname p = [] \<or> dirname p \<in> dirs w) \<and> w' = w\<lparr>files := (files w)(p \<mapsto> c)\<rparr>"
  by (auto simp: write_file_def)

lemma save_Some:
  "save lib im p w = Some w' \<longleftrightarrow>
     (\<exists>c. save_png lib im = Some c \<and> p \<notin> dirs w \<and> (dirname p = [] \<or> dirname p \<in> dirs w) \<and>
          w' = w\<lparr>files := (files w)(p \<mapsto> c)\<rparr>)"
  by (auto simp: save_def write_file_Some bind_eq_Some_conv)

lemma dirname_append_slash:
  "CHR ''/'' \<notin> set b \<Longrightarrow> dirname (a @ CHR ''/'' # b) = a"
proof -
  assume "CHR ''/'' \<notin> set b"
  then have "dropWhile (\<lambda>c. c \<noteq> CHR ''/'') (rev b @ CHR ''/'' # rev a) = CHR ''/'' # rev a"
    by (subst dropWhile_append2) auto
  then show ?thesis by (simp add: dirname_def)
qed

lemma path_prefixes_whole:
  "acc @ cs \<noteq> [] \<Longrightarrow> acc @ cs \<in> set (path_prefixes acc cs)"
proof (induction cs arbitrary: acc)
  case Nil
  then show ?case by simp
next
  case (Cons c cs)
  from Cons.IH [of "acc @ [c]"]
  have "(acc @ [c]) @ cs \<in> set (path_prefixes (acc @ [c]) cs)" by simp
  then show ?case by auto
qed

lemma path_prefixes_length:
  "x \<in> set (path_prefixes acc cs) \<Longrightarrow> length x \<le> length acc + length cs"
  by (induction cs arbitrary: acc) (fastforce split: if_splits)+

lemma icon_dir_in_android_dirs: "icon_dir_of density \<in> set (android_dirs density)"
  using path_prefixes_whole [of "[]" "icon_dir_of density"]
  by (simp add: android_dirs_def icon_dir_of_def android_icon_dir_def)

lemma android_files_not_dirs:
  "p \<in> set (android_files density) \<Longrightarrow> p \<notin> set (android_dirs density)"
  using path_prefixes_length [of p "[]" "icon_dir_of density"]
  by (auto simp: android_files_def android_dirs_def)

lemma android_files_dirname:
  "p \<in> set (android_files density) \<Longrightarrow> dirname p = icon_dir_of density"
  by (auto simp: android_files_def dirname_append_slash)

subsection \<open>One pass and the whole of each loop\<close>

lemma android_step_Some:
  "android_step lib logo (sz, density) w = Some w' \<longleftrightarrow>
     (\<exists>c cf. android_contents lib logo sz = Some (c, cf) \<and>
        (\<forall>d\<in>set (android_dirs density). files w d = None) \<and>
        (\<forall>p\<in>set (android_files density). p \<notin> dirs w) \<and>
        w' = w\<lparr>dirs := dirs w \<union> set (android_dirs density),
               files := files w ++ android_map lib logo (sz, density),
               stdout := stdout w @ android_message (sz, density)\<rparr>)"
proof -
  let ?d = "icon_dir_of density"
  have dn: "dirname (?d @ ''/ic_launcher.png'') = ?d"
    "dirname (?d @ ''/ic_launcher_round.png'') = ?d"
    "dirname (?d @ ''/ic_launcher_foreground.png'') = ?d"
    by (simp_all add: dirname_append_slash)
  have nd: "?d @ ''/ic_launcher.png'' \<notin> set (android_dirs density)"
    "?d @ ''/ic_launcher_round.png'' \<notin> set (android_dirs density)"
    "?d @ ''/ic_launcher_foreground.png'' \<notin> set (android_dirs density)"
    by (simp_all add: android_files_not_dirs android_files_def)
  note id = icon_dir_in_android_dirs [of density]
  have step: "android_step lib logo (sz, density) w = do {
        w \<leftarrow> mkdirs (android_dirs density) w;
        foreground \<leftarrow> make_foreground lib logo sz;
        resized \<leftarrow> resize_lanczos lib logo (sz, sz);
        w \<leftarrow> save lib resized (?d @ ''/ic_launcher.png'') w;
        w \<leftarrow> save lib resized (?d @ ''/ic_launcher_round.png'') w;
        w \<leftarrow> save lib foreground (?d @ ''/ic_launcher_foreground.png'') w;
        Some (w\<lparr>stdout := stdout w @ android_message (sz, density)\<rparr>)
      }"
    by (simp add: android_step_def icon_dir_of_def android_dirs_def makedirs_def
        android_message_def py_print_def)
  show ?thesis
    unfolding step
    by (auto simp: bind_eq_Some_conv mkdirs_Some save_Some dn nd id
        android_contents_def android_map_def android_files_def)
qed

lemma dom_android_map: "dom (android_map lib logo (sz, density)) \<subseteq> set (android_files density)"
  by (auto simp: android_map_def android_files_def split: option.splits if_splits)

lemma android_map_None:
  "p \<notin> set (android_files density) \<Longrightarrow> android_map lib logo (sz, density) p = None"
  using dom_android_map [of lib logo sz density] by blast

lemma android_loop_Some:
  assumes "set (android_files_all tbl) \<inter> set (android_dirs_all tbl) = {}"
  shows "android_loop lib logo tbl w = Some w' \<longleftrightarrow>
     (\<forall>(sz, density)\<in>set tbl. android_contents lib logo sz \<noteq> None) \<and>
     (\<forall>d\<in>set (android_dirs_all tbl). files w d = None) \<and>
     (\<forall>p\<in>set (android_files_all tbl). p \<notin> dirs w) \<and>
     w' = w\<lparr>dirs := dirs w \<union> set (android_dirs_all tbl),
            files := files w ++ android_outputs lib logo tbl,
            stdout := stdout w @ android_stdout tbl\<rparr>"
  using assms
proof (induction tbl arbitrary: w)
  case Nil
  then show ?case
    by (auto simp: android_dirs_all_def android_files_all_def android_stdout_def)
next
  case (Cons entry rest)
  obtain sz density where entry: "entry = (sz, density)" by (cases entry)
  have disj: "set (android_files_all (entry # rest)) \<inter> set (android_dirs_all (entry # rest)) = {}"
    using Cons.prems .
  have all_dirs: "set (android_dirs_all (entry # rest)) =
      set (android_dirs density) \<union> set (android_dirs_all rest)"
    by (simp add: android_dirs_all_def entry)
  have all_files: "set (android_files_all (entry # rest)) =
      set (android_files density) \<union> set (android_files_all rest)"
    by (simp add: android_files_all_def entry)
  have disj_rest: "set (android_files_all rest) \<inter> set (android_dirs_all rest) = {}"
    using disj unfolding all_dirs all_files by blast
  have cross1: "\<And>d. d \<in> set (android_dirs_all rest) \<Longrightarrow> d \<notin> set (android_files density)"
    using disj unfolding all_dirs all_files by blast
  have cross2: "\<And>p. p \<in> set (android_files_all rest) \<Longrightarrow> p \<notin> set (android_dirs density)"
    using disj unfolding all_dirs all_files by blast
  have out: "android_stdout (entry # rest) = android_message (sz, density) @ android_stdout rest"
    by (simp add: android_stdout_def entry)
  show ?case
    unfolding android_loop.simps bind_eq_Some_conv entry [symmetric]
    apply (simp only: entry android_step_Some Cons.IH [OF disj_rest])
    apply (simp only: all_dirs [unfolded entry] all_files [unfolded entry] out [unfolded entry])
    apply (auto simp: map_add_None android_map_None cross1 cross2 Un_assoc)
    done
qed

lemma digit_not_slash: "k < 10 \<Longrightarrow> char_of (48 + k :: nat) \<noteq> CHR ''/''"
proof
  assume k: "k < 10" and eq: "char_of (48 + k) = CHR ''/''"
  from eq have "(of_char (char_of (48 + k)) :: nat) = of_char CHR ''/''" by simp
  with k show False by (simp add: of_char_of)
qed

lemma str_nat_no_slash: "CHR ''/'' \<notin> set (str_nat n)"
proof (induction n rule: str_nat.induct)
  case (1 n)
  show ?case
  proof (cases "n < 10")
    case True
    then show ?thesis using digit_not_slash [of n] by (subst str_nat.simps) auto
  next
    case False
    have "n mod 10 < 10" by simp
    then have "char_of (48 + n mod 10) \<noteq> CHR ''/''" by (rule digit_not_slash)
    with False "1.IH" show ?thesis by (subst str_nat.simps) auto
  qed
qed

lemma favicon_file_dirname: "dirname (favicon_file sz) = ''www/assets/images''"
proof -
  have "CHR ''/'' \<notin> set (''favicon-'' @ str_int sz @ ''.png'')"
    by (simp add: str_int_def str_nat_no_slash)
  from dirname_append_slash [OF this, of "''www/assets/images''"]
  show ?thesis by (simp add: favicon_file_def)
qed

lemma favicon_step_Some:
  "favicon_step lib logo sz w = Some w' \<longleftrightarrow>
     (\<exists>c. favicon_content lib logo sz = Some c \<and> favicon_file sz \<notin> dirs w \<and>
        ''www/assets/images'' \<in> dirs w \<and>
        w' = w\<lparr>files := files w ++ favicon_map lib logo sz,
               stdout := stdout w @ favicon_message sz\<rparr>)"
proof -
  have step: "favicon_step lib logo sz w = do {
        resized \<leftarrow> resize_lanczos lib logo (sz, sz);
        w \<leftarrow> save lib resized (favicon_file sz) w;
        Some (w\<lparr>stdout := stdout w @ favicon_message sz\<rparr>)
      }"
    by (simp add: favicon_step_def favicon_file_def favicon_message_def py_print_def)
  show ?thesis
    unfolding step
    by (auto simp: bind_eq_Some_conv save_Some favicon_file_dirname
        favicon_content_def favicon_map_def)
qed

lemma favicon_loop_Some:
  "favicon_loop lib logo szs w = Some w' \<longleftrightarrow>
     (\<forall>sz\<in>set szs. favicon_content lib logo sz \<noteq> None) \<and>
     (\<forall>sz\<in>set szs. favicon_file sz \<notin> dirs w) \<and>
     (szs \<noteq> [] \<longrightarrow> ''www/assets/images'' \<in> dirs w) \<and>
     w' = w\<lparr>files := files w ++ favicon_outputs lib logo szs,
            stdout := stdout w @ favicon_stdout szs\<rparr>"
proof (induction szs arbitrary: w)
  case Nil
  then show ?case by (auto simp: favicon_stdout_def)
next
  case (Cons sz rest)
  have out: "favicon_stdout (sz # rest) = favicon_message sz @ favicon_stdout rest"
    by (simp add: favicon_stdout_def)
  show ?case
    unfolding favicon_loop.simps bind_eq_Some_conv
    apply (simp only: favicon_step_Some Cons.IH out)
    apply auto
    done
qed

subsection \<open>The paths of the two tables\<close>

lemma created_dirs_set:
  "set created_dirs =
     {''android'', ''android/app'', ''android/app/src'', ''android/app/src/main'',
      ''android/app/src/main/res'',
      ''android/app/src/main/res/mipmap-ldpi'', ''android/app/src/main/res/mipmap-mdpi'',
      ''android/app/src/main/res/mipmap-hdpi'', ''android/app/src/main/res/mipmap-xhdpi'',
      ''android/app/src/main/res/mipmap-xxhdpi'', ''android/app/src/main/res/mipmap-xxxhdpi''}"
  by (simp add: created_dirs_def android_dirs_all_def android_sizes_def android_dirs_def
      icon_dir_of_def android_icon_dir_def insert_commute)

lemma android_files_all_eq:
  "android_files_all android_sizes =
     [''android/app/src/main/res/mipmap-ldpi/ic_launcher.png'',
      ''android/app/src/main/res/mipmap-ldpi/ic_launcher_round.png'',
      ''android/app/src/main/res/mipmap-ldpi/ic_launcher_foreground.png'',
      ''android/app/src/main/res/mipmap-mdpi/ic_launcher.png'',
      ''android/app/src/main/res/mipmap-mdpi/ic_launcher_round.png'',
      ''android/app/src/main/res/mipmap-mdpi/ic_launcher_foreground.png'',
      ''android/app/src/main/res/mipmap-hdpi/ic_launcher.png'',
      ''android/app/src/main/res/mipmap-hdpi/ic_launcher_round.png'',
      ''android/app/src/main/res/mipmap-hdpi/ic_launcher_foreground.png'',
      ''android/app/src/main/res/mipmap-xhdpi/ic_launcher.png'',
      ''android/app/src/main/res/mipmap-xhdpi/ic_launcher_round.png'',
      ''android/app/src/main/res/mipmap-xhdpi/ic_launcher_foreground.png'',
      ''android/app/src/main/res/mipmap-xxhdpi/ic_launcher.png'',
      ''android/app/src/main/res/mipmap-xxhdpi/ic_launcher_round.png'',
      ''android/app/src/main/res/mipmap-xxhdpi/ic_launcher_foreground.png'',
      ''android/app/src/main/res/mipmap-xxxhdpi/ic_launcher.png'',
      ''android/app/src/main/res/mipmap-xxxhdpi/ic_launcher_round.png'',
      ''android/app/src/main/res/mipmap-xxxhdpi/ic_launcher_foreground.png'']"
  by (simp add: android_files_all_def android_sizes_def android_files_def
      icon_dir_of_def android_icon_dir_def)

lemma favicon_files_eq:
  "map favicon_file favicon_sizes =
     [''www/assets/images/favicon-16.png'', ''www/assets/images/favicon-32.png'',
      ''www/assets/images/favicon-48.png'', ''www/assets/images/favicon-64.png'',
      ''www/assets/images/favicon-128.png'', ''www/assets/images/favicon-256.png'']"
  by code_simp

lemma android_files_dirs_disjoint:
  "set (android_files_all android_sizes) \<inter> set (android_dirs_all android_sizes) = {}"
  unfolding android_files_all_eq created_dirs_set [unfolded created_dirs_def]
  by simp

lemma favicon_files_not_created:
  "sz \<in> set favicon_sizes \<Longrightarrow> favicon_file sz \<notin> set created_dirs"
proof -
  assume "sz \<in> set favicon_sizes"
  then have "favicon_file sz \<in> set (map favicon_file favicon_sizes)" by simp
  then show ?thesis unfolding favicon_files_eq created_dirs_set by auto
qed

lemma images_dir_not_created: "''www/assets/images'' \<notin> set created_dirs"
  unfolding created_dirs_set by simp

subsection \<open>A run in closed form\<close>

text \<open>
  On an existing source the function returns normally exactly when the source decodes,
  every library call of the run succeeds and the file system is ready; the state it
  returns is \<open>run_result\<close>.
\<close>

lemma generate_app_icons_Some:
  assumes "path_exists w logo_path"
  shows "generate_app_icons lib logo_path w = Some w' \<longleftrightarrow>
     (\<exists>logo. open_image lib logo_path w = Some logo \<and> outputs_ok lib logo \<and>
        fs_ready w \<and> w' = run_result lib logo w)"
proof -
  have ne: "favicon_sizes \<noteq> []" by (simp add: favicon_sizes_def)
  show ?thesis
    using assms
    apply (simp add: generate_app_icons_def bind_eq_Some_conv
        android_loop_Some [OF android_files_dirs_disjoint] favicon_loop_Some ne)
    apply (auto simp: outputs_ok_def fs_ready_def run_result_def outputs_def
        created_dirs_def output_files_def favicon_files_not_created [unfolded created_dirs_def]
        images_dir_not_created [unfolded created_dirs_def])
    done
qed

lemma dom_android_outputs:
  "dom (android_outputs lib logo tbl) \<subseteq> set (android_files_all tbl)"
proof (induction tbl)
  case Nil
  then show ?case by simp
next
  case (Cons entry rest)
  obtain sz density where entry: "entry = (sz, density)" by (cases entry)
  show ?case
    using Cons.IH dom_android_map [of lib logo sz density]
    by (auto simp: entry android_files_all_def)
qed

lemma dom_favicon_map: "dom (favicon_map lib logo sz) \<subseteq> {favicon_file sz}"
  by (auto simp: favicon_map_def split: option.splits if_splits)

lemma dom_favicon_outputs:
  "dom (favicon_outputs lib logo szs) \<subseteq> set (map favicon_file szs)"
proof (induction szs)
  case Nil
  then show ?case by simp
next
  case (Cons sz rest)
  show ?case
    using Cons.IH dom_favicon_map [of lib logo sz] by auto
qed

lemma dom_outputs: "dom (outputs lib logo) \<subseteq> set output_files"
  using dom_android_outputs [of lib logo android_sizes]
    dom_favicon_outputs [of lib logo favicon_sizes]
  by (auto simp: outputs_def output_files_def)

lemma outputs_None: "p \<notin> set output_files \<Longrightarrow> outputs lib logo p = None"
  using dom_outputs [of lib logo] by blast

lemma android_outputs_lookup:
  assumes "distinct (android_files_all tbl)"
    and "(sz, density) \<in> set tbl"
    and "android_contents lib logo sz = Some (c, cf)"
  shows "android_outputs lib logo tbl (icon_dir_of density @ ''/ic_launcher.png'') = Some c \<and>
         android_outputs lib logo tbl (icon_dir_of density @ ''/ic_launcher_round.png'') = Some c \<and>
         android_outputs lib logo tbl (icon_dir_of density @ ''/ic_launcher_foreground.png'') = Some cf"
  using assms
proof (induction tbl)
  case Nil
  then show ?case by simp
next
  case (Cons entry rest)
  obtain sz' density' where entry: "entry = (sz', density')" by (cases entry)
  have files: "android_files_all (entry # rest) = android_files density' @ android_files_all rest"
    by (simp add: android_files_all_def entry)
  have dist_rest: "distinct (android_files_all rest)"
    using Cons.prems(1) unfolding files by simp
  show ?case
  proof (cases "(sz, density) \<in> set rest")
    case True
    from Cons.IH [OF dist_rest True Cons.prems(3)]
    show ?thesis by (simp add: map_add_Some_iff)
  next
    case False
    with Cons.prems(2) have eq: "sz' = sz" "density' = density" by (auto simp: entry)
    have "\<And>p. p \<in> set (android_files density) \<Longrightarrow> p \<notin> set (android_files_all rest)"
      using Cons.prems(1) unfolding files eq by auto
    then have none: "\<And>p. p \<in> set (android_files density) \<Longrightarrow> android_outputs lib logo rest p = None"
      using dom_android_outputs [of lib logo rest] by blast
    show ?thesis
      using none Cons.prems(3)
      by (simp add: entry eq map_add_Some_iff android_files_def android_map_def)
  qed
qed

lemma favicon_outputs_lookup:
  assumes "distinct (map favicon_file szs)"
    and "sz \<in> set szs"
    and "favicon_content lib logo sz = Some c"
  shows "favicon_outputs lib logo szs (favicon_file sz) = Some c"
  using assms
proof (induction szs)
  case Nil
  then show ?case by simp
next
  case (Cons sz' rest)
  show ?case
  proof (cases "sz \<in> set rest")
    case True
    with Cons show ?thesis by (simp add: map_add_Some_iff)
  next
    case False
    with Cons.prems(2) have eq: "sz' = sz" by simp
    have "favicon_file sz \<notin> set (map favicon_file rest)"
      using Cons.prems(1) by (simp add: eq)
    then have "favicon_outputs lib logo rest (favicon_file sz) = None"
      using dom_favicon_outputs [of lib logo rest] by blast
    then show ?thesis
      using Cons.prems(3) by (simp add: eq map_add_Some_iff favicon_map_def)
  qed
qed

lemma output_files_eq:
  "output_files =
     [''android/app/src/main/res/mipmap-ldpi/ic_launcher.png'',
      ''android/app/src/main/res/mipmap-ldpi/ic_launcher_round.png'',
      ''android/app/src/main/res/mipmap-ldpi/ic_launcher_foreground.png'',
      ''android/app/src/main/res/mipmap-mdpi/ic_launcher.png'',
      ''android/app/src/main/res/mipmap-mdpi/ic_launcher_round.png'',
      ''android/app/src/main/res/mipmap-mdpi/ic_launcher_foreground.png'',
      ''android/app/src/main/res/mipmap-hdpi/ic_launcher.png'',
      ''android/app/src/main/res/mipmap-hdpi/ic_launcher_round.png'',
      ''android/app/src/main/res/mipmap-hdpi/ic_launcher_foreground.png'',
      ''android/app/src/main/res/mipmap-xhdpi/ic_launcher.png'',
      ''android/app/src/main/res/mipmap-xhdpi/ic_launcher_round.png'',
      ''android/app/src/main/res/mipmap-xhdpi/ic_launcher_foreground.png'',
      ''android/app/src/main/res/mipmap-xxhdpi/ic_launcher.png'',
      ''android/app/src/main/res/mipmap-xxhdpi/ic_launcher_round.png'',
      ''android/app/src/main/res/mipmap-xxhdpi/ic_launcher_foreground.png'',
      ''android/app/src/main/res/mipmap-xxxhdpi/ic_launcher.png'',
      ''android/app/src/main/res/mipmap-xxxhdpi/ic_launcher_round.png'',
      ''android/app/src/main/res/mipmap-xxxhdpi/ic_launcher_foreground.png'',
      ''www/assets/images/favicon-16.png'', ''www/assets/images/favicon-32.png'',
      ''www/assets/images/favicon-48.png'', ''www/assets/images/favicon-64.png'',
      ''www/assets/images/favicon-128.png'', ''www/assets/images/favicon-256.png'']"
  by (simp add: output_files_def android_files_all_eq favicon_files_eq)

lemma distinct_output_files: "distinct output_files"
  unfolding output_files_eq by simp

lemma output_files_not_created: "p \<in> set output_files \<Longrightarrow> p \<notin> set created_dirs"
  unfolding output_files_eq created_dirs_set by auto

lemma files_run_result: "files (run_result lib logo w) = files w ++ outputs lib logo"
  by (simp add: run_result_def print_summary_def py_print_def)

lemma dirs_run_result: "dirs (run_result lib logo w) = dirs w \<union> set created_dirs"
  by (simp add: run_result_def print_summary_def py_print_def)

lemma android_contents_Some:
  "android_contents lib logo sz = Some (c, cf) \<longleftrightarrow>
     (\<exists>foreground resized. make_foreground lib logo sz = Some foreground \<and>
        resize_lanczos lib logo (sz, sz) = Some resized \<and>
        save_png lib resized = Some c \<and> save_png lib foreground = Some cf)"
  by (auto simp: android_contents_def bind_eq_Some_conv)

lemma favicon_content_Some:
  "favicon_content lib logo sz = Some c \<longleftrightarrow>
     (\<exists>resized. resize_lanczos lib logo (sz, sz) = Some resized \<and> save_png lib resized = Some c)"
  by (auto simp: favicon_content_def bind_eq_Some_conv)

lemma outputs_android:
  assumes ok: "outputs_ok lib logo" and mem: "(sz, density) \<in> set android_sizes"
  shows "\<exists>c cf. android_contents lib logo sz = Some (c, cf) \<and>
     outputs lib logo (icon_dir_of density @ ''/ic_launcher.png'') = Some c \<and>
     outputs lib logo (icon_dir_of density @ ''/ic_launcher_round.png'') = Some c \<and>
     outputs lib logo (icon_dir_of density @ ''/ic_launcher_foreground.png'') = Some cf"
proof -
  from ok mem obtain c cf where c: "android_contents lib logo sz = Some (c, cf)"
    by (fastforce simp: outputs_ok_def)
  have dist: "distinct (android_files_all android_sizes)"
    using distinct_output_files by (simp add: output_files_def)
  note look = android_outputs_lookup [OF dist mem c]
  have "set (android_files density) \<subseteq> set (android_files_all android_sizes)"
    using mem by (auto simp: android_files_all_def)
  then have "\<And>p. p \<in> set (android_files density) \<Longrightarrow> p \<notin> set (map favicon_file favicon_sizes)"
    using distinct_output_files by (auto simp: output_files_def)
  then have "\<And>p. p \<in> set (android_files density) \<Longrightarrow>
      favicon_outputs lib logo favicon_sizes p = None"
    using dom_favicon_outputs [of lib logo favicon_sizes] by blast
  then have "\<And>p. p \<in> set (android_files density) \<Longrightarrow>
      outputs lib logo p = android_outputs lib logo android_sizes p"
    by (simp add: outputs_def map_add_def)
  with look c show ?thesis by (simp add: android_files_def)
qed

lemma outputs_favicon:
  assumes ok: "outputs_ok lib logo" and mem: "sz \<in> set favicon_sizes"
  shows "\<exists>c. favicon_content lib logo sz = Some c \<and>
     outputs lib logo (favicon_file sz) = Some c"
proof -
  from ok mem obtain c where c: "favicon_content lib logo sz = Some c"
    by (auto simp: outputs_ok_def)
  have dist: "distinct (map favicon_file favicon_sizes)"
    using distinct_output_files by (simp add: output_files_def)
  from favicon_outputs_lookup [OF dist mem c] c show ?thesis
    by (simp add: outputs_def map_add_Some_iff)
qed

lemma outputs_defined:
  assumes ok: "outputs_ok lib logo" and mem: "p \<in> set output_files"
  shows "outputs lib logo p \<noteq> None"
proof -
  from mem consider (android) "p \<in> set (android_files_all android_sizes)"
    | (favicon) "p \<in> set (map favicon_file favicon_sizes)"
    by (auto simp: output_files_def)
  then show ?thesis
  proof cases
    case android
    then obtain sz density where m: "(sz, density) \<in> set android_sizes"
      and p: "p \<in> set (android_files density)"
      by (auto simp: android_files_all_def)
    from outputs_android [OF ok m] p show ?thesis
      by (auto simp: android_files_def)
  next
    case favicon
    then obtain sz where m: "sz \<in> set favicon_sizes" and p: "p = favicon_file sz"
      by auto
    from outputs_favicon [OF ok m] p show ?thesis by auto
  qed
qed

subsection \<open>The foreground layer\<close>

lemma ensure_rgba_Some:
  assumes "pil_spec lib" and "ensure_rgba lib im = Some r"
  shows "mode r = ''RGBA'' \<and> im_size r = im_size im \<and>
     (mode im \<noteq> ''RGBA'' \<longrightarrow> convert lib im ''RGBA'' = Some r) \<and>
     (mode im = ''RGBA'' \<longrightarrow> r = im)"
  using assms
  by (auto simp: ensure_rgba_def pil_spec_def split: if_splits)

lemma ensure_rgba_opaque:
  assumes "pil_opaque_spec lib" and "ensure_rgba lib im = Some r"
    and "\<not> has_alpha (mode im)" and "transparency im = None"
  shows "opaque r"
proof -
  from assms(3) have "mode im \<noteq> ''RGBA''" by (auto simp: has_alpha_def)
  with assms(2) have "convert lib im ''RGBA'' = Some r" by (simp add: ensure_rgba_def)
  with assms(1,3,4) show ?thesis unfolding pil_opaque_spec_def by blast
qed

lemma make_foreground_Some:
  "make_foreground lib logo sz = Some fg \<longleftrightarrow>
     (\<exists>padded_size canvas logo_resized im.
        padded_size_of sz = Some padded_size \<and>
        image_new ''RGBA'' (sz, sz) (0, 0, 0, 0) = Some canvas \<and>
        resize_lanczos lib logo (padded_size, padded_size) = Some logo_resized \<and>
        ensure_rgba lib logo_resized = Some im \<and>
        fg = paste canvas im (padding_of sz padded_size, padding_of sz padded_size) im)"
  by (auto simp: make_foreground_def bind_eq_Some_conv Let_def)

lemma paste_outside:
  assumes "\<not> (fst box \<le> x \<and> x < fst box + fst (im_size im) \<and>
              snd box \<le> y \<and> y < snd box + snd (im_size im))"
  shows "getpixel (paste dst im box msk) (x, y) = getpixel dst (x, y)"
  using assms by (auto simp: paste_def Let_def)

lemma paste_mode_size:
  "mode (paste dst im box msk) = mode dst \<and> im_size (paste dst im box msk) = im_size dst"
  by (simp add: paste_def Let_def)

lemma foreground_transparent_border:
  assumes spec: "pil_spec lib"
    and ps: "padded_size_of sz = Some padded_size"
    and fg: "make_foreground lib logo sz = Some fg"
    and out: "\<not> (padding_of sz padded_size \<le> x \<and> x < padding_of sz padded_size + padded_size \<and>
                 padding_of sz padded_size \<le> y \<and> y < padding_of sz padded_size + padded_size)"
  shows "mode fg = ''RGBA'' \<and> im_size fg = (sz, sz) \<and> alpha (getpixel fg (x, y)) = 0"
proof -
  from fg ps obtain canvas logo_resized im where
    canvas: "image_new ''RGBA'' (sz, sz) (0, 0, 0, 0) = Some canvas" and
    lr: "resize_lanczos lib logo (padded_size, padded_size) = Some logo_resized" and
    im: "ensure_rgba lib logo_resized = Some im" and
    fg_eq: "fg = paste canvas im (padding_of sz padded_size, padding_of sz padded_size) im"
    by (auto simp: make_foreground_Some)
  from spec lr have "im_size logo_resized = (padded_size, padded_size)"
    by (auto simp: pil_spec_def)
  with ensure_rgba_Some [OF spec im] have sz_im: "im_size im = (padded_size, padded_size)"
    by simp
  from canvas have cv: "mode canvas = ''RGBA''" "im_size canvas = (sz, sz)"
    "getpixel canvas (x, y) = (0, 0, 0, 0)"
    by (auto simp: image_new_def split: if_splits)
  have "getpixel fg (x, y) = getpixel canvas (x, y)"
    unfolding fg_eq using out by (intro paste_outside) (simp add: sz_im)
  with cv show ?thesis by (simp add: fg_eq paste_mode_size alpha_def)
qed

subsection \<open>The instance\<close>

lemma example_pil_spec: "pil_spec example_pil"
  by (auto simp: pil_spec_def example_pil_def)

lemma example_pil_opaque_spec: "pil_opaque_spec example_pil"
  by (auto simp: pil_opaque_spec_def example_pil_def opaque_def alpha_def split: prod.splits)

lemmas padded_size_of_entries = padded_size_of_table [unfolded android_sizes_def, simplified]

lemma make_foreground_total:
  assumes r: "\<And>im sz. resize_lanczos lib im sz \<noteq> None"
    and c: "\<And>im m. convert lib im m \<noteq> None"
    and ps: "padded_size_of sz \<noteq> None" and nonneg: "0 \<le> sz"
  shows "make_foreground lib logo sz \<noteq> None"
proof -
  from ps obtain padded_size where 1: "padded_size_of sz = Some padded_size" by auto
  from nonneg obtain canvas where 2: "image_new ''RGBA'' (sz, sz) (0, 0, 0, 0) = Some canvas"
    by (auto simp: image_new_def)
  from r obtain lr where 3: "resize_lanczos lib logo (padded_size, padded_size) = Some lr"
    by (meson option.exhaust)
  have "ensure_rgba lib lr \<noteq> None"
    using c [of lr "''RGBA''"] by (simp add: ensure_rgba_def)
  then obtain im where 4: "ensure_rgba lib lr = Some im" by auto
  from 1 2 3 4 show ?thesis by (simp add: make_foreground_def Let_def)
qed

lemma outputs_ok_total:
  assumes r: "\<And>im sz. resize_lanczos lib im sz \<noteq> None"
    and c: "\<And>im m. convert lib im m \<noteq> None"
    and s: "\<And>im. save_png lib im \<noteq> None"
  shows "outputs_ok lib logo"
proof -
  have fav: "favicon_content lib logo sz \<noteq> None" for sz
  proof -
    from r obtain resized where "resize_lanczos lib logo (sz, sz) = Some resized"
      by (meson option.exhaust)
    moreover from s obtain c where "save_png lib resized = Some c"
      by (meson option.exhaust)
    ultimately show ?thesis by (simp add: favicon_content_def)
  qed
  have andr: "android_contents lib logo sz \<noteq> None"
    if "padded_size_of sz \<noteq> None" "0 \<le> sz" for sz
  proof -
    from make_foreground_total [OF r c that] obtain fg
      where 1: "make_foreground lib logo sz = Some fg" by auto
    from r obtain resized where 2: "resize_lanczos lib logo (sz, sz) = Some resized"
      by (meson option.exhaust)
    from s obtain c where 3: "save_png lib resized = Some c" by (meson option.exhaust)
    from s obtain cf where 4: "save_png lib fg = Some cf" by (meson option.exhaust)
    from 1 2 3 4 show ?thesis by (simp add: android_contents_def)
  qed
  have "android_contents lib logo sz \<noteq> None" if "(sz, density) \<in> set android_sizes"
    for sz density
    using that by (intro andr) (auto simp: android_sizes_def padded_size_of_entries)
  with fav show ?thesis
    unfolding outputs_ok_def by blast
qed

lemma example_outputs_ok: "outputs_ok example_pil logo"
  by (rule outputs_ok_total) (simp_all add: example_pil_def)

lemma example_fs_ready: "fs_ready example_world"
  by (simp add: fs_ready_def created_dirs_set output_files_eq example_world_def)

lemma example_exists: "path_exists example_world ''www/assets/images/logo.png''"
  by (simp add: path_exists_def example_world_def)

lemma example_open:
  "open_image example_pil ''www/assets/images/logo.png'' example_world = Some example_logo"
  by (simp add: open_image_def example_world_def example_pil_def)

lemma example_run:
  "generate_app_icons example_pil ''www/assets/images/logo.png'' example_world =
     Some (run_result example_pil example_logo example_world)"
  using example_open example_outputs_ok example_fs_ready
  by (simp add: generate_app_icons_Some [OF example_exists])

section \<open>Successful runs\<close>

lemma run_succeeded:
  assumes "path_exists w logo_path" and "generate_app_icons lib logo_path w = Some w'"
  obtains logo where "open_image lib logo_path w = Some logo" and "outputs_ok lib logo"
    and "fs_ready w" and "w' = run_result lib logo w"
  using assms by (auto simp: generate_app_icons_Some)

lemma files_run_result_output:
  "outputs lib logo p = Some c \<Longrightarrow> files (run_result lib logo w) p = Some c"
  by (simp add: files_run_result map_add_Some_iff)

lemma example_missing: "\<not> path_exists example_world ''logo.png''"
  by (simp add: path_exists_def example_world_def)

text \<open>
  C2. If the source path does not exist, \<open>generate_app_icons\<close> returns normally, having
  printed the missing path and the recommended format, and has created no file and no
  directory: the directories and the files are those of the start.
\<close>

theorem C2_missing_source:
  assumes "\<not> path_exists w logo_path"
  shows "\<exists>w'. generate_app_icons lib logo_path w = Some w' \<and>
     dirs w' = dirs w \<and> files w' = files w \<and>
     stdout w' = stdout w @ ''Please add your logo as: '' @ logo_path @ [CHR 0x0A] @
       ''Recommended: 512x512 PNG with transparent background'' @ [CHR 0x0A]"
  using assms by (simp add: generate_app_icons_def py_print_def)

theorem C2_missing_source_witness:
  "\<not> path_exists example_world ''logo.png'' \<and>
   (\<exists>w'. generate_app_icons example_pil ''logo.png'' example_world = Some w' \<and>
      dirs w' = dirs example_world \<and> files w' = files example_world \<and>
      stdout w' = stdout example_world @ ''Please add your logo as: '' @ ''logo.png'' @
        [CHR 0x0A] @ ''Recommended: 512x512 PNG with transparent background'' @ [CHR 0x0A])"
  using C2_missing_source [OF example_missing, of example_pil] example_missing
  by blast

text \<open>
  C5. After a run on an existing source that returns normally, for every density of the
  Android table the files \<open>ic_launcher.png\<close> and \<open>ic_launcher_round.png\<close> of its
  directory have the same contents: the encoding of the one image obtained by resizing
  the source to the full size.
\<close>

theorem C5_launcher_round_identical:
  assumes "path_exists w logo_path"
    and "generate_app_icons lib logo_path w = Some w'"
    and "(sz, density) \<in> set android_sizes"
  shows "\<exists>logo resized c.
     open_image lib logo_path w = Some logo \<and>
     resize_lanczos lib logo (sz, sz) = Some resized \<and>
     save_png lib resized = Some c \<and>
     files w' (icon_dir_of density @ ''/ic_launcher.png'') = Some c \<and>
     files w' (icon_dir_of density @ ''/ic_launcher_round.png'') = Some c"
proof -
  from assms(1,2) obtain logo where logo: "open_image lib logo_path w = Some logo"
    and ok: "outputs_ok lib logo" and w': "w' = run_result lib logo w"
    by (rule run_succeeded)
  from outputs_android [OF ok assms(3)] obtain c cf where
    c: "android_contents lib logo sz = Some (c, cf)" and
    o1: "outputs lib logo (icon_dir_of density @ ''/ic_launcher.png'') = Some c" and
    o2: "outputs lib logo (icon_dir_of density @ ''/ic_launcher_round.png'') = Some c"
    by blast
  from c obtain resized where "resize_lanczos lib logo (sz, sz) = Some resized"
    and "save_png lib resized = Some c"
    by (auto simp: android_contents_Some)
  with logo o1 o2 show ?thesis
    unfolding w' by (blast intro: files_run_result_output)
qed

theorem C5_launcher_round_identical_witness:
  "path_exists example_world ''www/assets/images/logo.png'' \<and>
   generate_app_icons example_pil ''www/assets/images/logo.png'' example_world =
     Some (run_result example_pil example_logo example_world) \<and>
   (48, ''mdpi'') \<in> set android_sizes \<and>
   (\<exists>logo resized c.
      open_image example_pil ''www/assets/images/logo.png'' example_world = Some logo \<and>
      resize_lanczos example_pil logo (48, 48) = Some resized \<and>
      save_png example_pil resized = Some c \<and>
      files (run_result example_pil example_logo example_world)
        (icon_dir_of ''mdpi'' @ ''/ic_launcher.png'') = Some c \<and>
      files (run_result example_pil example_logo example_world)
        (icon_dir_of ''mdpi'' @ ''/ic_launcher_round.png'') = Some c)"
proof -
  have mem: "(48, ''mdpi'') \<in> set android_sizes" by (simp add: android_sizes_def)
  from C5_launcher_round_identical [OF example_exists example_run mem]
    example_exists example_run mem
  show ?thesis by blast
qed

text \<open>
  C6. After a run on an existing source that returns normally, with a library that meets
  \<open>pil_spec\<close>: for every entry of the Android table the file \<open>ic_launcher.png\<close> holds
  the encoding of an image of exactly \<open>s \<times> s\<close> pixels, and for every favicon size the
  file \<open>favicon-<size>.png\<close> exists and holds the encoding of an image of exactly
  \<open>size \<times> size\<close> pixels; each image is the source resized.
\<close>

theorem C6_exact_dimensions:
  assumes "pil_spec lib"
    and "path_exists w logo_path"
    and "generate_app_icons lib logo_path w = Some w'"
  shows "\<exists>logo. open_image lib logo_path w = Some logo \<and>
     (\<forall>(sz, density)\<in>set android_sizes. \<exists>resized c.
        resize_lanczos lib logo (sz, sz) = Some resized \<and> im_size resized = (sz, sz) \<and>
        save_png lib resized = Some c \<and>
        files w' (icon_dir_of density @ ''/ic_launcher.png'') = Some c) \<and>
     (\<forall>sz\<in>set favicon_sizes. \<exists>resized c.
        resize_lanczos lib logo (sz, sz) = Some resized \<and> im_size resized = (sz, sz) \<and>
        save_png lib resized = Some c \<and>
        files w' (''www/assets/images/favicon-'' @ str_int sz @ ''.png'') = Some c)"
proof -
  from assms(2,3) obtain logo where logo: "open_image lib logo_path w = Some logo"
    and ok: "outputs_ok lib logo" and w': "w' = run_result lib logo w"
    by (rule run_succeeded)
  have size: "im_size r = sz" if "resize_lanczos lib logo sz = Some r" for r sz
    using assms(1) that unfolding pil_spec_def by blast
  have android: "\<exists>resized c.
        resize_lanczos lib logo (sz, sz) = Some resized \<and> im_size resized = (sz, sz) \<and>
        save_png lib resized = Some c \<and>
        files w' (icon_dir_of density @ ''/ic_launcher.png'') = Some c"
    if mem: "(sz, density) \<in> set android_sizes" for sz density
  proof -
    from outputs_android [OF ok mem] obtain c cf where
      c: "android_contents lib logo sz = Some (c, cf)" and
      o: "outputs lib logo (icon_dir_of density @ ''/ic_launcher.png'') = Some c"
      by blast
    from c obtain resized where r: "resize_lanczos lib logo (sz, sz) = Some resized"
      and s: "save_png lib resized = Some c"
      by (auto simp: android_contents_Some)
    from r s size [OF r] files_run_result_output [OF o, of w] show ?thesis
      unfolding w' by blast
  qed
  have favicon: "\<exists>resized c.
        resize_lanczos lib logo (sz, sz) = Some resized \<and> im_size resized = (sz, sz) \<and>
        save_png lib resized = Some c \<and>
        files w' (''www/assets/images/favicon-'' @ str_int sz @ ''.png'') = Some c"
    if mem: "sz \<in> set favicon_sizes" for sz
  proof -
    from outputs_favicon [OF ok mem] obtain c where
      c: "favicon_content lib logo sz = Some c" and
      o: "outputs lib logo (favicon_file sz) = Some c"
      by blast
    from c obtain resized where r: "resize_lanczos lib logo (sz, sz) = Some resized"
      and s: "save_png lib resized = Some c"
      by (auto simp: favicon_content_Some)
    from r s size [OF r] files_run_result_output [OF o, of w] show ?thesis
      unfolding w' favicon_file_def by blast
  qed
  from logo android favicon show ?thesis by blast
qed

theorem C6_exact_dimensions_witness:
  "pil_spec example_pil \<and>
   path_exists example_world ''www/assets/images/logo.png'' \<and>
   generate_app_icons example_pil ''www/assets/images/logo.png'' example_world =
     Some (run_result example_pil example_logo example_world) \<and>
   (192, ''xxxhdpi'') \<in> set android_sizes \<and> 16 \<in> set favicon_sizes \<and>
   (\<exists>resized c.
      resize_lanczos example_pil example_logo (192, 192) = Some resized \<and>
      im_size resized = (192, 192) \<and> save_png example_pil resized = Some c \<and>
      files (run_result example_pil example_logo example_world)
        (icon_dir_of ''xxxhdpi'' @ ''/ic_launcher.png'') = Some c) \<and>
   (\<exists>resized c.
      resize_lanczos example_pil example_logo (16, 16) = Some resized \<and>
      im_size resized = (16, 16) \<and> save_png example_pil resized = Some c \<and>
      files (run_result example_pil example_logo example_world)
        (''www/assets/images/favicon-'' @ str_int 16 @ ''.png'') = Some c)"
proof -
  have m1: "(192, ''xxxhdpi'') \<in> set android_sizes" by (simp add: android_sizes_def)
  have m2: "16 \<in> set favicon_sizes" by (simp add: favicon_sizes_def)
  from C6_exact_dimensions [OF example_pil_spec example_exists example_run]
  obtain logo where logo:
    "open_image example_pil ''www/assets/images/logo.png'' example_world = Some logo"
    and a: "\<forall>(sz, density)\<in>set android_sizes. \<exists>resized c.
        resize_lanczos example_pil logo (sz, sz) = Some resized \<and>
        im_size resized = (sz, sz) \<and> save_png example_pil resized = Some c \<and>
        files (run_result example_pil example_logo example_world)
          (icon_dir_of density @ ''/ic_launcher.png'') = Some c"
    and f: "\<forall>sz\<in>set favicon_sizes. \<exists>resized c.
        resize_lanczos example_pil logo (sz, sz) = Some resized \<and>
        im_size resized = (sz, sz) \<and> save_png example_pil resized = Some c \<and>
        files (run_result example_pil example_logo example_world)
          (''www/assets/images/favicon-'' @ str_int sz @ ''.png'') = Some c"
    by blast
  from logo have eq: "logo = example_logo" by (simp add: example_open)
  from a m1 have a': "\<exists>resized c.
        resize_lanczos example_pil logo (192, 192) = Some resized \<and>
        im_size resized = (192, 192) \<and> save_png example_pil resized = Some c \<and>
        files (run_result example_pil example_logo example_world)
          (icon_dir_of ''xxxhdpi'' @ ''/ic_launcher.png'') = Some c"
    by fast
  from f m2 have f': "\<exists>resized c.
        resize_lanczos example_pil logo (16, 16) = Some resized \<and>
        im_size resized = (16, 16) \<and> save_png example_pil resized = Some c \<and>
        files (run_result example_pil example_logo example_world)
          (''www/assets/images/favicon-'' @ str_int 16 @ ''.png'') = Some c"
    by fast
  from a' f' example_pil_spec example_exists example_run m1 m2 show ?thesis
    unfolding eq by blast
qed

text \<open>
  C10. After a run on an existing source that returns normally, the files
  \<open>android/app/src/main/res/mipmap-mdpi/ic_launcher.png\<close> and
  \<open>www/assets/images/favicon-48.png\<close> have the same contents: both hold the encoding of
  the source resized to \<open>48 \<times> 48\<close>.
\<close>

theorem C10_mdpi_launcher_is_favicon_48:
  assumes "path_exists w logo_path"
    and "generate_app_icons lib logo_path w = Some w'"
  shows "\<exists>logo resized c.
     open_image lib logo_path w = Some logo \<and>
     resize_lanczos lib logo (48, 48) = Some resized \<and>
     save_png lib resized = Some c \<and>
     files w' ''android/app/src/main/res/mipmap-mdpi/ic_launcher.png'' = Some c \<and>
     files w' ''www/assets/images/favicon-48.png'' = Some c"
proof -
  from assms obtain logo where logo: "open_image lib logo_path w = Some logo"
    and ok: "outputs_ok lib logo" and w': "w' = run_result lib logo w"
    by (rule run_succeeded)
  have m1: "(48, ''mdpi'') \<in> set android_sizes" by (simp add: android_sizes_def)
  have m2: "48 \<in> set favicon_sizes" by (simp add: favicon_sizes_def)
  have p1: "icon_dir_of ''mdpi'' @ ''/ic_launcher.png'' =
      ''android/app/src/main/res/mipmap-mdpi/ic_launcher.png''"
    by (simp add: icon_dir_of_def android_icon_dir_def)
  have p2: "favicon_file 48 = ''www/assets/images/favicon-48.png''"
    by code_simp
  from outputs_android [OF ok m1] obtain c cf where
    c: "android_contents lib logo 48 = Some (c, cf)" and
    o1: "outputs lib logo ''android/app/src/main/res/mipmap-mdpi/ic_launcher.png'' = Some c"
    unfolding p1 by blast
  from c obtain resized where r: "resize_lanczos lib logo (48, 48) = Some resized"
    and s: "save_png lib resized = Some c"
    by (auto simp: android_contents_Some)
  from outputs_favicon [OF ok m2] r s
  have o2: "outputs lib logo ''www/assets/images/favicon-48.png'' = Some c"
    unfolding p2 by (auto simp: favicon_content_Some)
  from logo r s files_run_result_output [OF o1, of w] files_run_result_output [OF o2, of w]
  show ?thesis unfolding w' by blast
qed

theorem C10_mdpi_launcher_is_favicon_48_witness:
  "path_exists example_world ''www/assets/images/logo.png'' \<and>
   generate_app_icons example_pil ''www/assets/images/logo.png'' example_world =
     Some (run_result example_pil example_logo example_world) \<and>
   (\<exists>logo resized c.
      open_image example_pil ''www/assets/images/logo.png'' example_world = Some logo \<and>
      resize_lanczos example_pil logo (48, 48) = Some resized \<and>
      save_png example_pil resized = Some c \<and>
      files (run_result example_pil example_logo example_world)
        ''android/app/src/main/res/mipmap-mdpi/ic_launcher.png'' = Some c \<and>
      files (run_result example_pil example_logo example_world)
        ''www/assets/images/favicon-48.png'' = Some c)"
  using C10_mdpi_launcher_is_favicon_48 [OF example_exists example_run]
    example_exists example_run
  by blast

section \<open>The foreground layer of a run\<close>

lemma padded_size_of_android:
  "(sz, density) \<in> set android_sizes \<Longrightarrow> padded_size_of sz = Some (7 * sz div 10)"
  by (auto simp: android_sizes_def padded_size_of_entries)

lemma run_foreground:
  assumes "path_exists w logo_path"
    and "generate_app_icons lib logo_path w = Some w'"
    and "(sz, density) \<in> set android_sizes"
  obtains logo fg c where "open_image lib logo_path w = Some logo"
    and "make_foreground lib logo sz = Some fg"
    and "save_png lib fg = Some c"
    and "files w' (icon_dir_of density @ ''/ic_launcher_foreground.png'') = Some c"
proof -
  from assms(1,2) obtain logo where logo: "open_image lib logo_path w = Some logo"
    and ok: "outputs_ok lib logo" and w': "w' = run_result lib logo w"
    by (rule run_succeeded)
  from outputs_android [OF ok assms(3)] obtain c cf where
    c: "android_contents lib logo sz = Some (c, cf)" and
    o: "outputs lib logo (icon_dir_of density @ ''/ic_launcher_foreground.png'') = Some cf"
    by blast
  from c obtain fg where "make_foreground lib logo sz = Some fg" and "save_png lib fg = Some cf"
    by (auto simp: android_contents_Some)
  with logo files_run_result_output [OF o, of w] that show ?thesis
    unfolding w' by blast
qed

text \<open>
  C1. After a run on an existing source that returns normally, with a library that meets
  \<open>pil_spec\<close>: for every size \<open>s\<close> of the Android table the file
  \<open>ic_launcher_foreground.png\<close> holds the encoding of an RGBA image of \<open>s \<times> s\<close> pixels in
  which every pixel outside the square
  \<open>[offset, offset + paddedSize) \<times> [offset, offset + paddedSize)\<close> has alpha 0, where
  \<open>paddedSize = floor (7 * s / 10)\<close> and \<open>offset = floor ((s - paddedSize) / 2)\<close>.
\<close>

theorem C1_foreground_transparent_outside_square:
  assumes "pil_spec lib"
    and "path_exists w logo_path"
    and "generate_app_icons lib logo_path w = Some w'"
    and "(sz, density) \<in> set android_sizes"
  shows "\<exists>logo fg c.
     open_image lib logo_path w = Some logo \<and>
     make_foreground lib logo sz = Some fg \<and>
     save_png lib fg = Some c \<and>
     files w' (icon_dir_of density @ ''/ic_launcher_foreground.png'') = Some c \<and>
     mode fg = ''RGBA'' \<and> im_size fg = (sz, sz) \<and>
     (\<forall>x y. 0 \<le> x \<and> x < sz \<and> 0 \<le> y \<and> y < sz \<and>
        \<not> ((sz - 7 * sz div 10) div 2 \<le> x \<and> x < (sz - 7 * sz div 10) div 2 + 7 * sz div 10 \<and>
           (sz - 7 * sz div 10) div 2 \<le> y \<and> y < (sz - 7 * sz div 10) div 2 + 7 * sz div 10) \<longrightarrow>
        alpha (getpixel fg (x, y)) = 0)"
proof -
  from assms(2-4) obtain logo fg c where logo: "open_image lib logo_path w = Some logo"
    and fg: "make_foreground lib logo sz = Some fg"
    and c: "save_png lib fg = Some c"
    and f: "files w' (icon_dir_of density @ ''/ic_launcher_foreground.png'') = Some c"
    by (rule run_foreground)
  note ps = padded_size_of_android [OF assms(4)]
  note border = foreground_transparent_border [OF assms(1) ps fg, unfolded padding_of_def]
  from logo fg c f border show ?thesis by blast
qed

theorem C1_foreground_transparent_outside_square_witness:
  "pil_spec example_pil \<and>
   path_exists example_world ''www/assets/images/logo.png'' \<and>
   generate_app_icons example_pil ''www/assets/images/logo.png'' example_world =
     Some (run_result example_pil example_logo example_world) \<and>
   (48, ''mdpi'') \<in> set android_sizes \<and>
   (\<exists>fg c.
      make_foreground example_pil example_logo 48 = Some fg \<and>
      save_png example_pil fg = Some c \<and>
      files (run_result example_pil example_logo example_world)
        (icon_dir_of ''mdpi'' @ ''/ic_launcher_foreground.png'') = Some c \<and>
      mode fg = ''RGBA'' \<and> im_size fg = (48, 48) \<and>
      alpha (getpixel fg (6, 20)) = 0 \<and> alpha (getpixel fg (40, 47)) = 0)"
proof -
  have mem: "(48, ''mdpi'') \<in> set android_sizes" by (simp add: android_sizes_def)
  from C1_foreground_transparent_outside_square [OF example_pil_spec example_exists example_run mem]
  obtain logo fg c where
    logo: "open_image example_pil ''www/assets/images/logo.png'' example_world = Some logo"
    and fg: "make_foreground example_pil logo 48 = Some fg"
    and c: "save_png example_pil fg = Some c"
    and f: "files (run_result example_pil example_logo example_world)
        (icon_dir_of ''mdpi'' @ ''/ic_launcher_foreground.png'') = Some c"
    and m: "mode fg = ''RGBA''" "im_size fg = (48, 48)"
    and border: "\<And>x y. 0 \<le> x \<and> x < 48 \<and> 0 \<le> y \<and> y < 48 \<and>
        \<not> ((48 - 7 * 48 div 10) div 2 \<le> x \<and> x < (48 - 7 * 48 div 10) div 2 + 7 * 48 div 10 \<and>
           (48 - 7 * 48 div 10) div 2 \<le> y \<and> y < (48 - 7 * 48 div 10) div 2 + 7 * 48 div 10) \<longrightarrow>
        alpha (getpixel fg (x, y)) = (0 :: byte)"
    by blast
  from logo have eq: "logo = example_logo" by (simp add: example_open)
  from border [of 6 20] have b1: "alpha (getpixel fg (6, 20)) = 0" by simp
  from border [of 40 47] have b2: "alpha (getpixel fg (40, 47)) = 0" by simp
  from fg c f m b1 b2 example_pil_spec example_exists example_run mem show ?thesis
    unfolding eq by blast
qed

lemma palette_exists: "path_exists palette_world ''www/assets/images/logo.png''"
  by (simp add: path_exists_def palette_world_def)

lemma palette_run:
  "generate_app_icons example_pil ''www/assets/images/logo.png'' palette_world =
     Some (run_result example_pil palette_logo palette_world)"
proof -
  have "open_image example_pil ''www/assets/images/logo.png'' palette_world = Some palette_logo"
    by (simp add: open_image_def palette_world_def example_pil_def)
  moreover have "fs_ready palette_world"
    by (simp add: fs_ready_def created_dirs_set output_files_eq palette_world_def)
  ultimately show ?thesis
    using example_outputs_ok by (simp add: generate_app_icons_Some [OF palette_exists])
qed

text \<open>
  C8, as stated, fails. An image can lack an alpha band and still carry a transparency
  entry, as a palette PNG with a \<open>tRNS\<close> chunk does; lines 41-42 convert it, and the
  conversion carries the transparency over instead of adding an opaque band. Here the
  source is \<open>palette_logo\<close>: the resized image has mode \<open>P\<close>, and the image pasted onto
  the canvas and saved has alpha 0 at pixel \<open>(0, 0)\<close>.
\<close>

theorem C8_transparency_carried_over_counterexample:
  "pil_spec example_pil \<and> pil_opaque_spec example_pil \<and>
   path_exists palette_world ''www/assets/images/logo.png'' \<and>
   generate_app_icons example_pil ''www/assets/images/logo.png'' palette_world =
     Some (run_result example_pil palette_logo palette_world) \<and>
   (48, ''mdpi'') \<in> set android_sizes \<and>
   (\<exists>canvas logo_resized im c.
      image_new ''RGBA'' (48, 48) (0, 0, 0, 0) = Some canvas \<and>
      resize_lanczos example_pil palette_logo (33, 33) = Some logo_resized \<and>
      mode logo_resized = ''P'' \<and> \<not> has_alpha (mode logo_resized) \<and>
      ensure_rgba example_pil logo_resized = Some im \<and>
      alpha (getpixel im (0, 0)) = 0 \<and> \<not> opaque im \<and>
      save_png example_pil (paste canvas im (7, 7) im) = Some c \<and>
      files (run_result example_pil palette_logo palette_world)
        (icon_dir_of ''mdpi'' @ ''/ic_launcher_foreground.png'') = Some c)"
proof -
  have mem: "(48, ''mdpi'') \<in> set android_sizes" by (simp add: android_sizes_def)
  from palette_exists palette_run mem obtain logo fg c where
    logo: "open_image example_pil ''www/assets/images/logo.png'' palette_world = Some logo"
    and fg: "make_foreground example_pil logo 48 = Some fg"
    and c: "save_png example_pil fg = Some c"
    and f: "files (run_result example_pil palette_logo palette_world)
        (icon_dir_of ''mdpi'' @ ''/ic_launcher_foreground.png'') = Some c"
    by (rule run_foreground)
  from logo have eq: "logo = palette_logo"
    by (simp add: open_image_def palette_world_def example_pil_def)
  from fg obtain padded_size canvas logo_resized im where
    1: "padded_size_of 48 = Some padded_size" and
    2: "image_new ''RGBA'' (48, 48) (0, 0, 0, 0) = Some canvas" and
    3: "resize_lanczos example_pil palette_logo (padded_size, padded_size) = Some logo_resized" and
    4: "ensure_rgba example_pil logo_resized = Some im" and
    5: "fg = paste canvas im (padding_of 48 padded_size, padding_of 48 padded_size) im"
    unfolding eq by (auto simp: make_foreground_Some)
  from 1 have ps: "padded_size = 33" by (simp add: padded_size_of_entries)
  have pad: "padding_of 48 33 = 7" by (simp add: padding_of_def)
  from 3 have lr: "logo_resized = palette_logo\<lparr>im_size := (33, 33)\<rparr>"
    by (auto simp: example_pil_def ps)
  then have m: "mode logo_resized = ''P''" by (simp add: palette_logo_def)
  then have na: "\<not> has_alpha (mode logo_resized)" by (simp add: has_alpha_def)
  from 4 have a0: "alpha (getpixel im (0, 0)) = 0"
    by (auto simp: ensure_rgba_def lr palette_logo_def example_pil_def alpha_def)
  from 4 have s33: "im_size im = (33, 33)"
    by (auto simp: ensure_rgba_def lr palette_logo_def example_pil_def)
  have no: "\<not> opaque im"
  proof
    assume "opaque im"
    then have "alpha (getpixel im (0, 0)) = 255" by (simp add: opaque_def s33)
    with a0 show False by simp
  qed
  from 2 3 m na 4 a0 no c f example_pil_spec example_pil_opaque_spec palette_exists palette_run mem
  show ?thesis unfolding 5 ps pad by blast
qed

text \<open>
  C8, amended. In the foreground step of every entry of the Android table (in a run on an
  existing source that returns normally, with a library that meets \<open>pil_spec\<close> and
  \<open>pil_opaque_spec\<close>): the image that is pasted onto the transparent canvas, and whose
  paste is saved as \<open>ic_launcher_foreground.png\<close>, is an RGBA image of the size of the
  resized source; when the resized source is not in mode RGBA, and so whenever it has no
  alpha band, it is the result of \<open>convert('RGBA')\<close> on it; and when the resized source
  has no alpha band and carries no transparency entry, its alpha is 255 in every pixel.
\<close>

theorem C8_converted_before_compositing:
  assumes "pil_spec lib"
    and "pil_opaque_spec lib"
    and "path_exists w logo_path"
    and "generate_app_icons lib logo_path w = Some w'"
    and "(sz, density) \<in> set android_sizes"
  shows "\<exists>logo padded_size canvas logo_resized im c.
     open_image lib logo_path w = Some logo \<and>
     padded_size_of sz = Some padded_size \<and>
     image_new ''RGBA'' (sz, sz) (0, 0, 0, 0) = Some canvas \<and>
     resize_lanczos lib logo (padded_size, padded_size) = Some logo_resized \<and>
     ensure_rgba lib logo_resized = Some im \<and>
     save_png lib (paste canvas im (padding_of sz padded_size, padding_of sz padded_size) im)
       = Some c \<and>
     files w' (icon_dir_of density @ ''/ic_launcher_foreground.png'') = Some c \<and>
     mode im = ''RGBA'' \<and> im_size im = im_size logo_resized \<and>
     (mode logo_resized \<noteq> ''RGBA'' \<longrightarrow> convert lib logo_resized ''RGBA'' = Some im) \<and>
     (\<not> has_alpha (mode logo_resized) \<longrightarrow> convert lib logo_resized ''RGBA'' = Some im) \<and>
     (\<not> has_alpha (mode logo_resized) \<and> transparency logo_resized = None \<longrightarrow> opaque im)"
proof -
  from assms(3-5) obtain logo fg c where logo: "open_image lib logo_path w = Some logo"
    and fg: "make_foreground lib logo sz = Some fg"
    and c: "save_png lib fg = Some c"
    and f: "files w' (icon_dir_of density @ ''/ic_launcher_foreground.png'') = Some c"
    by (rule run_foreground)
  from fg obtain padded_size canvas logo_resized im where
    1: "padded_size_of sz = Some padded_size" and
    2: "image_new ''RGBA'' (sz, sz) (0, 0, 0, 0) = Some canvas" and
    3: "resize_lanczos lib logo (padded_size, padded_size) = Some logo_resized" and
    4: "ensure_rgba lib logo_resized = Some im" and
    5: "fg = paste canvas im (padding_of sz padded_size, padding_of sz padded_size) im"
    by (auto simp: make_foreground_Some)
  note e = ensure_rgba_Some [OF assms(1) 4]
  from e have 6: "mode im = ''RGBA''" and 7: "im_size im = im_size logo_resized"
    and 8: "mode logo_resized \<noteq> ''RGBA'' \<longrightarrow> convert lib logo_resized ''RGBA'' = Some im"
    by blast+
  have 9: "\<not> has_alpha (mode logo_resized) \<longrightarrow> convert lib logo_resized ''RGBA'' = Some im"
    using 8 by (auto simp: has_alpha_def)
  have 10: "\<not> has_alpha (mode logo_resized) \<and> transparency logo_resized = None \<longrightarrow> opaque im"
    using ensure_rgba_opaque [OF assms(2) 4] by blast
  from logo 1 2 3 4 c [unfolded 5] f 6 7 8 9 10 show ?thesis by blast
qed

theorem C8_converted_before_compositing_witness:
  "pil_spec example_pil \<and> pil_opaque_spec example_pil \<and>
   path_exists example_world ''www/assets/images/logo.png'' \<and>
   generate_app_icons example_pil ''www/assets/images/logo.png'' example_world =
     Some (run_result example_pil example_logo example_world) \<and>
   (48, ''mdpi'') \<in> set android_sizes \<and>
   (\<exists>canvas logo_resized im c.
      image_new ''RGBA'' (48, 48) (0, 0, 0, 0) = Some canvas \<and>
      resize_lanczos example_pil example_logo (33, 33) = Some logo_resized \<and>
      \<not> has_alpha (mode logo_resized) \<and> transparency logo_resized = None \<and>
      convert example_pil logo_resized ''RGBA'' = Some im \<and>
      mode im = ''RGBA'' \<and> im_size im = (33, 33) \<and> opaque im \<and>
      save_png example_pil (paste canvas im (7, 7) im) = Some c \<and>
      files (run_result example_pil example_logo example_world)
        (icon_dir_of ''mdpi'' @ ''/ic_launcher_foreground.png'') = Some c)"
proof -
  have mem: "(48, ''mdpi'') \<in> set android_sizes" by (simp add: android_sizes_def)
  from C8_converted_before_compositing
    [OF example_pil_spec example_pil_opaque_spec example_exists example_run mem]
  obtain logo padded_size canvas logo_resized im c where
    logo: "open_image example_pil ''www/assets/images/logo.png'' example_world = Some logo"
    and 1: "padded_size_of 48 = Some padded_size"
    and 2: "image_new ''RGBA'' (48, 48) (0, 0, 0, 0) = Some canvas"
    and 3: "resize_lanczos example_pil logo (padded_size, padded_size) = Some logo_resized"
    and 5: "save_png example_pil
        (paste canvas im (padding_of 48 padded_size, padding_of 48 padded_size) im) = Some c"
    and 6: "files (run_result example_pil example_logo example_world)
        (icon_dir_of ''mdpi'' @ ''/ic_launcher_foreground.png'') = Some c"
    and 7: "mode im = ''RGBA''" "im_size im = im_size logo_resized"
    and 8: "\<not> has_alpha (mode logo_resized) \<longrightarrow>
        convert example_pil logo_resized ''RGBA'' = Some im"
    and 9: "\<not> has_alpha (mode logo_resized) \<and> transparency logo_resized = None \<longrightarrow> opaque im"
    by blast
  from logo have eq: "logo = example_logo" by (simp add: example_open)
  from 1 have ps: "padded_size = 33" by (simp add: padded_size_of_entries)
  have pad: "padding_of 48 33 = 7" by (simp add: padding_of_def)
  from 3 have lr: "logo_resized = example_logo\<lparr>im_size := (33, 33)\<rparr>"
    by (auto simp: eq example_pil_def ps)
  then have na: "\<not> has_alpha (mode logo_resized)" and nt: "transparency logo_resized = None"
    and sz: "im_size logo_resized = (33, 33)"
    by (simp_all add: example_logo_def has_alpha_def)
  from 8 na have cv: "convert example_pil logo_resized ''RGBA'' = Some im" by blast
  from 9 na nt have op: "opaque im" by blast
  from 2 3 na nt cv 7 op 5 6 example_pil_spec example_pil_opaque_spec example_exists
    example_run mem
  show ?thesis unfolding eq ps pad sz by blast
qed

section \<open>Running twice\<close>

lemma map_add_twice: "(m ++ n) ++ n = m ++ n"
  by (rule ext) (simp add: map_add_def split: option.splits)

lemma fs_ready_run_result:
  assumes "fs_ready w"
  shows "fs_ready (run_result lib logo w)"
proof -
  have "files (run_result lib logo w) d = None" if "d \<in> set created_dirs" for d
  proof -
    from that have "d \<notin> set output_files" using output_files_not_created by blast
    then have "outputs lib logo d = None" by (rule outputs_None)
    moreover from assms that have "files w d = None" by (simp add: fs_ready_def)
    ultimately show ?thesis by (simp add: files_run_result map_add_def)
  qed
  moreover have "p \<notin> dirs (run_result lib logo w)" if "p \<in> set output_files" for p
    using assms that output_files_not_created [OF that]
    by (simp add: dirs_run_result fs_ready_def)
  moreover have "''www/assets/images'' \<in> dirs (run_result lib logo w)"
    using assms by (simp add: dirs_run_result fs_ready_def)
  ultimately show ?thesis unfolding fs_ready_def by blast
qed

text \<open>
  C7. If a run returns normally and has left the contents of the source path as they
  were, then a second run from the state the first one left returns normally too and
  leaves every file with the contents it had after the first run; no directory is added.
\<close>

theorem C7_second_run_identical:
  assumes run: "generate_app_icons lib logo_path w = Some w1"
    and same: "files w1 logo_path = files w logo_path"
  shows "\<exists>w2. generate_app_icons lib logo_path w1 = Some w2 \<and>
     files w2 = files w1 \<and> dirs w2 = dirs w1"
proof (cases "path_exists w logo_path")
  case False
  with run have w1: "w1 = py_print ''Recommended: 512x512 PNG with transparent background''
      (py_print (''Please add your logo as: '' @ logo_path) w)"
    by (simp add: generate_app_icons_def)
  with False have "\<not> path_exists w1 logo_path"
    by (simp add: path_exists_def py_print_def)
  then show ?thesis by (simp add: generate_app_icons_def py_print_def)
next
  case True
  from True run obtain logo where logo: "open_image lib logo_path w = Some logo"
    and ok: "outputs_ok lib logo" and ready: "fs_ready w"
    and w1: "w1 = run_result lib logo w"
    by (rule run_succeeded)
  from True same have ex: "path_exists w1 logo_path"
    by (auto simp: path_exists_def w1 dirs_run_result)
  from logo same have logo1: "open_image lib logo_path w1 = Some logo"
    by (simp add: open_image_def)
  have ready1: "fs_ready w1" unfolding w1 using ready by (rule fs_ready_run_result)
  from logo1 ok ready1 have "generate_app_icons lib logo_path w1 = Some (run_result lib logo w1)"
    by (simp add: generate_app_icons_Some [OF ex])
  moreover have "files (run_result lib logo w1) = files w1"
    by (simp add: files_run_result w1 map_add_twice)
  moreover have "dirs (run_result lib logo w1) = dirs w1"
    by (auto simp: dirs_run_result w1)
  ultimately show ?thesis by blast
qed

lemma example_source_kept:
  "files (run_result example_pil example_logo example_world) ''www/assets/images/logo.png'' =
   files example_world ''www/assets/images/logo.png''"
proof -
  have "''www/assets/images/logo.png'' \<notin> set output_files"
    unfolding output_files_eq by simp
  then show ?thesis by (simp add: files_run_result map_add_def outputs_None)
qed

theorem C7_second_run_identical_witness:
  "generate_app_icons example_pil ''www/assets/images/logo.png'' example_world =
     Some (run_result example_pil example_logo example_world) \<and>
   files (run_result example_pil example_logo example_world) ''www/assets/images/logo.png'' =
     files example_world ''www/assets/images/logo.png'' \<and>
   (\<exists>w2. generate_app_icons example_pil ''www/assets/images/logo.png''
            (run_result example_pil example_logo example_world) = Some w2 \<and>
      files w2 = files (run_result example_pil example_logo example_world) \<and>
      dirs w2 = dirs (run_result example_pil example_logo example_world))"
  using C7_second_run_identical [OF example_run example_source_kept]
    example_run example_source_kept
  by blast

section \<open>The effects of a run\<close>

lemma aliased_exists: "path_exists aliased_world ''www/assets/images/favicon-16.png''"
  by (simp add: path_exists_def aliased_world_def)

lemma aliased_run:
  "generate_app_icons example_pil ''www/assets/images/favicon-16.png'' aliased_world =
     Some (run_result example_pil example_logo aliased_world)"
proof -
  have "open_image example_pil ''www/assets/images/favicon-16.png'' aliased_world =
      Some example_logo"
    by (simp add: open_image_def aliased_world_def example_pil_def)
  moreover have "fs_ready aliased_world"
    by (simp add: fs_ready_def created_dirs_set output_files_eq aliased_world_def)
  ultimately show ?thesis
    using example_outputs_ok by (simp add: generate_app_icons_Some [OF aliased_exists])
qed

lemma favicon_file_16: "favicon_file 16 = ''www/assets/images/favicon-16.png''"
  by code_simp

subsection \<open>Runs that raise: agreement with the functions that drop the state\<close>

lemma normal_return_and_then:
  "normal_return (and_then r f) = Option.bind (normal_return r) (\<lambda>w. normal_return (f w))"
  by (cases r) simp_all

lemma normal_return_Some: "normal_return r = Some w \<longleftrightarrow> r = Returned w"
  by (cases r) auto

lemma returned_iff: "returned r \<longleftrightarrow> r = Returned (state_of r)"
  by (cases r) auto

lemma normal_return_mkdirs: "normal_return (run_mkdirs ds w) = mkdirs ds w"
  by (induction ds arbitrary: w) auto

lemma normal_return_save: "normal_return (run_save lib residue im p w) = save lib im p w"
  by (auto simp: run_save_def save_def write_file_def split: option.splits)

lemma normal_return_android_step:
  "normal_return (run_android_step lib residue logo entry w) = android_step lib logo entry w"
  by (cases entry)
    (simp add: run_android_step_def android_step_def run_makedirs_def makedirs_def Let_def
      normal_return_and_then normal_return_mkdirs normal_return_save
      split: option.splits bind_splits)

lemma normal_return_android_loop:
  "normal_return (run_android_loop lib residue logo tbl w) = android_loop lib logo tbl w"
  by (induction tbl arbitrary: w)
    (simp_all add: normal_return_and_then normal_return_android_step cong: Option.bind_cong)

lemma normal_return_favicon_step:
  "normal_return (run_favicon_step lib residue logo sz w) = favicon_step lib logo sz w"
  by (simp add: run_favicon_step_def favicon_step_def normal_return_and_then
      normal_return_save split: option.splits bind_splits)

lemma normal_return_favicon_loop:
  "normal_return (run_favicon_loop lib residue logo szs w) = favicon_loop lib logo szs w"
  by (induction szs arbitrary: w)
    (simp_all add: normal_return_and_then normal_return_favicon_step cong: Option.bind_cong)

text \<open>
  On an existing source, the run that keeps the state returns normally exactly when the
  function of the previous section does on the resolved path, and in the same state.
\<close>

lemma normal_return_generate:
  assumes "path_exists w (resolve logo_path)"
  shows "normal_return (run_generate_app_icons lib residue resolve logo_path w) =
     generate_app_icons lib (resolve logo_path) w"
  using assms
  by (simp add: run_generate_app_icons_def generate_app_icons_def normal_return_and_then
      normal_return_android_loop normal_return_favicon_loop
      split: option.splits bind_splits cong: Option.bind_cong)

subsection \<open>Runs that raise: what they can touch\<close>

lemma effects_within_refl: "effects_within D F w w"
  by (simp add: effects_within_def)

lemma effects_within_trans:
  "effects_within D F w w1 \<Longrightarrow> effects_within D F w1 w2 \<Longrightarrow> effects_within D F w w2"
  by (auto simp: effects_within_def)

lemma effects_within_mono:
  "effects_within D F w w' \<Longrightarrow> D \<subseteq> D' \<Longrightarrow> F \<subseteq> F' \<Longrightarrow> effects_within D' F' w w'"
  by (auto simp: effects_within_def)

lemma effects_within_print: "effects_within D F w (py_print s w)"
  by (simp add: effects_within_def py_print_def)

lemma effects_within_and_then:
  assumes "effects_within D F w (state_of r)"
    and "\<And>w1. effects_within D F w1 (state_of (f w1))"
  shows "effects_within D F w (state_of (and_then r f))"
proof (cases r)
  case (Returned w1)
  with assms(1) have "effects_within D F w w1" by simp
  from effects_within_trans [OF this assms(2)] Returned show ?thesis by simp
next
  case (Raised w1)
  with assms(1) show ?thesis by simp
qed

lemma effects_within_mkdirs: "effects_within (set ds) F w (state_of (run_mkdirs ds w))"
proof (induction ds arbitrary: w)
  case Nil
  then show ?case by (simp add: effects_within_refl)
next
  case (Cons d ds)
  show ?case
  proof (cases "files w d \<noteq> None")
    case True
    then show ?thesis by (simp add: effects_within_refl)
  next
    case False
    have "effects_within (set (d # ds)) F w (w\<lparr>dirs := insert d (dirs w)\<rparr>)"
      by (auto simp: effects_within_def)
    moreover have "effects_within (set (d # ds)) F (w\<lparr>dirs := insert d (dirs w)\<rparr>)
        (state_of (run_mkdirs ds (w\<lparr>dirs := insert d (dirs w)\<rparr>)))"
      using Cons.IH by (rule effects_within_mono) auto
    ultimately show ?thesis using False by (auto intro: effects_within_trans)
  qed
qed

lemma effects_within_save:
  "p \<in> F \<Longrightarrow> effects_within D F w (state_of (run_save lib residue im p w))"
  by (auto simp: run_save_def effects_within_def split: option.splits)

lemma effects_within_android_step:
  "effects_within (set (android_dirs density)) (set (android_files density)) w
     (state_of (run_android_step lib residue logo (sz, density) w))"
proof -
  let ?D = "set (android_dirs density)" and ?F = "set (android_files density)"
  have mk: "effects_within ?D ?F w (state_of (run_makedirs (icon_dir_of density) w))"
    by (simp add: run_makedirs_def android_dirs_def [symmetric] effects_within_mkdirs)
  have sv: "\<And>im name w. name \<in> {''/ic_launcher.png'', ''/ic_launcher_round.png'',
        ''/ic_launcher_foreground.png''} \<Longrightarrow>
      effects_within ?D ?F w (state_of (run_save lib residue im (icon_dir_of density @ name) w))"
    by (rule effects_within_save) (auto simp: android_files_def)
  show ?thesis
    unfolding run_android_step_def
    by (auto simp: Let_def effects_within_refl effects_within_print
        intro!: effects_within_and_then mk sv split: option.splits)
qed

lemma effects_within_android_loop:
  "effects_within (set (android_dirs_all tbl)) (set (android_files_all tbl)) w
     (state_of (run_android_loop lib residue logo tbl w))"
proof (induction tbl arbitrary: w)
  case Nil
  then show ?case by (simp add: effects_within_refl)
next
  case (Cons entry rest)
  obtain sz density where entry: "entry = (sz, density)" by (cases entry)
  let ?D = "set (android_dirs_all (entry # rest))"
  let ?F = "set (android_files_all (entry # rest))"
  have 1: "effects_within ?D ?F w (state_of (run_android_step lib residue logo entry w))"
    unfolding entry
    by (rule effects_within_mono [OF effects_within_android_step])
      (auto simp: android_dirs_all_def android_files_all_def)
  have 2: "\<And>w1. effects_within ?D ?F w1 (state_of (run_android_loop lib residue logo rest w1))"
    by (rule effects_within_mono [OF Cons.IH])
      (auto simp: android_dirs_all_def android_files_all_def)
  from 1 2 show ?case by (simp add: effects_within_and_then)
qed

lemma effects_within_favicon_step:
  "effects_within D {favicon_file sz} w (state_of (run_favicon_step lib residue logo sz w))"
  unfolding run_favicon_step_def
  by (auto simp: effects_within_refl effects_within_print effects_within_save
      intro!: effects_within_and_then split: option.splits)

lemma effects_within_favicon_loop:
  "effects_within D (set (map favicon_file szs)) w
     (state_of (run_favicon_loop lib residue logo szs w))"
proof (induction szs arbitrary: w)
  case Nil
  then show ?case by (simp add: effects_within_refl)
next
  case (Cons sz rest)
  let ?F = "set (map favicon_file (sz # rest))"
  have 1: "effects_within D ?F w (state_of (run_favicon_step lib residue logo sz w))"
    by (rule effects_within_mono [OF effects_within_favicon_step]) auto
  have 2: "\<And>w1. effects_within D ?F w1 (state_of (run_favicon_loop lib residue logo rest w1))"
    by (rule effects_within_mono [OF Cons.IH]) auto
  from 1 2 show ?case by (simp add: effects_within_and_then)
qed

text \<open>Whatever the outcome, a run stays within the eleven directories and the 24 files.\<close>

lemma effects_within_generate:
  "effects_within (set created_dirs) (set output_files) w
     (state_of (run_generate_app_icons lib residue resolve logo_path w))"
proof -
  let ?D = "set created_dirs" and ?F = "set output_files"
  have a: "\<And>logo w. effects_within ?D ?F w
      (state_of (run_android_loop lib residue logo android_sizes w))"
    by (rule effects_within_mono [OF effects_within_android_loop])
      (auto simp: created_dirs_def output_files_def)
  have f: "\<And>logo w. effects_within ?D ?F w
      (state_of (run_favicon_loop lib residue logo favicon_sizes w))"
    by (rule effects_within_mono [OF effects_within_favicon_loop [of "set created_dirs"]])
      (auto simp: output_files_def)
  have p: "\<And>w. effects_within ?D ?F w (print_summary w)"
    by (simp add: effects_within_def print_summary_def py_print_def)
  have m: "\<And>s t. effects_within ?D ?F w (py_print s (py_print t w))"
    by (simp add: effects_within_def py_print_def)
  show ?thesis
  proof (cases "path_exists w (resolve logo_path)")
    case False
    then show ?thesis by (simp add: run_generate_app_icons_def m)
  next
    case True
    show ?thesis
    proof (cases "open_image lib (resolve logo_path) w")
      case None
      with True show ?thesis by (simp add: run_generate_app_icons_def effects_within_refl)
    next
      case (Some logo)
      have "effects_within ?D ?F w
          (state_of (and_then (run_android_loop lib residue logo android_sizes w) (\<lambda>w.
             and_then (run_favicon_loop lib residue logo favicon_sizes w) (\<lambda>w.
             Returned (print_summary w)))))"
        by (intro effects_within_and_then a f) (simp add: p)
      with True Some show ?thesis by (simp add: run_generate_app_icons_def)
    qed
  qed
qed

subsection \<open>Runs that raise: instances\<close>

lemma resolve_plain_favicon_16:
  "resolve_plain ''./www/assets/images/favicon-16.png'' = ''www/assets/images/favicon-16.png''"
  by (simp add: resolve_plain_def)

lemma resolve_plain_logo:
  "resolve_plain ''./www/assets/images/logo.png'' = ''www/assets/images/logo.png''"
  by (simp add: resolve_plain_def)

lemma aliased_run_returned:
  "run_generate_app_icons example_pil example_residue resolve_plain
     ''./www/assets/images/favicon-16.png'' aliased_world =
   Returned (run_result example_pil example_logo aliased_world)"
proof -
  have "path_exists aliased_world (resolve_plain ''./www/assets/images/favicon-16.png'')"
    by (simp add: resolve_plain_favicon_16 aliased_exists)
  from normal_return_generate [where resolve = resolve_plain
      and logo_path = "''./www/assets/images/favicon-16.png''" and w = aliased_world
      and lib = example_pil and residue = example_residue, OF this]
  show ?thesis
    by (simp add: resolve_plain_favicon_16 aliased_run normal_return_Some)
qed

lemma example_run_returned:
  "run_generate_app_icons example_pil example_residue resolve_plain
     ''./www/assets/images/logo.png'' example_world =
   Returned (run_result example_pil example_logo example_world)"
proof -
  have "path_exists example_world (resolve_plain ''./www/assets/images/logo.png'')"
    by (simp add: resolve_plain_logo example_exists)
  from normal_return_generate [where resolve = resolve_plain
      and logo_path = "''./www/assets/images/logo.png''" and w = example_world
      and lib = example_pil and residue = example_residue, OF this]
  show ?thesis
    by (simp add: resolve_plain_logo example_run normal_return_Some)
qed

lemma directory_exists: "path_exists directory_world ''www/assets/images/logo.png''"
  by (simp add: path_exists_def directory_world_def)

text \<open>
  C9, as stated, fails in three ways. The source path is a parameter, and nothing keeps
  the file it names apart from the output files: started on
  \<open>./www/assets/images/favicon-16.png\<close>, the run overwrites its own source with the
  16-pixel favicon. The run creates the ancestors of the six \<open>mipmap\<close> directories, such
  as \<open>android\<close>, when they are missing. And an invocation with an existing source need
  not write the 24 files: when the source path is a directory, \<^verbatim>\<open>Image.open\<close> raises
  before anything is written.
\<close>

theorem C9_source_overwritten_counterexample:
  "resolve_plain ''./www/assets/images/favicon-16.png'' = ''www/assets/images/favicon-16.png'' \<and>
   path_exists aliased_world (resolve_plain ''./www/assets/images/favicon-16.png'') \<and>
   run_generate_app_icons example_pil example_residue resolve_plain
     ''./www/assets/images/favicon-16.png'' aliased_world =
     Returned (run_result example_pil example_logo aliased_world) \<and>
   files aliased_world ''www/assets/images/favicon-16.png'' = Some example_logo \<and>
   files (run_result example_pil example_logo aliased_world)
     ''www/assets/images/favicon-16.png'' = Some (example_logo\<lparr>im_size := (16, 16)\<rparr>) \<and>
   files (run_result example_pil example_logo aliased_world)
     ''www/assets/images/favicon-16.png'' \<noteq> files aliased_world ''www/assets/images/favicon-16.png'' \<and>
   ''android'' \<notin> dirs aliased_world \<and>
   ''android'' \<in> dirs (run_result example_pil example_logo aliased_world) \<and>
   path_exists directory_world ''www/assets/images/logo.png'' \<and>
   run_generate_app_icons example_pil example_residue (\<lambda>p. p)
     ''www/assets/images/logo.png'' directory_world = Raised directory_world"
proof -
  have m: "16 \<in> set favicon_sizes" by (simp add: favicon_sizes_def)
  have c: "favicon_content example_pil example_logo 16 = Some (example_logo\<lparr>im_size := (16, 16)\<rparr>)"
    by (simp add: favicon_content_def example_pil_def)
  from outputs_favicon [OF example_outputs_ok m, of example_logo] c
  have "outputs example_pil example_logo ''www/assets/images/favicon-16.png'' =
      Some (example_logo\<lparr>im_size := (16, 16)\<rparr>)"
    by (simp add: favicon_file_16)
  then have after: "files (run_result example_pil example_logo aliased_world)
      ''www/assets/images/favicon-16.png'' = Some (example_logo\<lparr>im_size := (16, 16)\<rparr>)"
    by (rule files_run_result_output)
  have before: "files aliased_world ''www/assets/images/favicon-16.png'' = Some example_logo"
    by (simp add: aliased_world_def)
  have ne: "example_logo\<lparr>im_size := (16, 16)\<rparr> \<noteq> example_logo"
  proof
    assume "example_logo\<lparr>im_size := (16, 16)\<rparr> = example_logo"
    then have "im_size (example_logo\<lparr>im_size := (16, 16)\<rparr>) = im_size example_logo" by simp
    then show False by (simp add: example_logo_def)
  qed
  have d1: "''android'' \<notin> dirs aliased_world" by (simp add: aliased_world_def)
  have d2: "''android'' \<in> dirs (run_result example_pil example_logo aliased_world)"
    by (simp add: dirs_run_result created_dirs_set)
  have ex: "path_exists aliased_world (resolve_plain ''./www/assets/images/favicon-16.png'')"
    by (simp add: resolve_plain_favicon_16 aliased_exists)
  have raised: "run_generate_app_icons example_pil example_residue (\<lambda>p. p)
      ''www/assets/images/logo.png'' directory_world = Raised directory_world"
    using directory_exists
    by (simp add: run_generate_app_icons_def open_image_def directory_world_def)
  from resolve_plain_favicon_16 ex aliased_run_returned before after ne d1 d2
    directory_exists raised
  show ?thesis by simp
qed

text \<open>
  C9, amended. On every invocation with an existing source, whether it returns normally
  or raises: no directory is removed, every directory added is one of the six
  \<open>res/mipmap-<density>\<close> directories or of their five ancestors, and every file other
  than the 24 output files (18 Android icon files, 6 favicon files) is as it was; in
  particular the source file is as it was whenever it is not one of the 24 output
  files. When the invocation returns normally, all eleven directories exist and each of
  the 24 output files has been written: \<open>ic_launcher.png\<close> and \<open>ic_launcher_round.png\<close>
  with the encoding of the source resized to the full size, \<open>ic_launcher_foreground.png\<close>
  with the encoding of the foreground layer, \<open>favicon-<size>.png\<close> with the encoding of
  the source resized to that size.
\<close>

theorem C9_effects_of_a_run:
  assumes "path_exists w (resolve logo_path)"
  shows "let w' = state_of (run_generate_app_icons lib residue resolve logo_path w) in
     dirs w \<subseteq> dirs w' \<and> dirs w' \<subseteq> dirs w \<union> set created_dirs \<and>
     (\<forall>p. p \<notin> set output_files \<longrightarrow> files w' p = files w p) \<and>
     (resolve logo_path \<notin> set output_files \<longrightarrow>
        files w' (resolve logo_path) = files w (resolve logo_path)) \<and>
     (returned (run_generate_app_icons lib residue resolve logo_path w) \<longrightarrow>
        dirs w' = dirs w \<union> set created_dirs \<and>
        (\<exists>logo. open_image lib (resolve logo_path) w = Some logo \<and>
           (\<forall>(sz, density)\<in>set android_sizes. \<exists>resized foreground c cf.
              resize_lanczos lib logo (sz, sz) = Some resized \<and>
              save_png lib resized = Some c \<and>
              make_foreground lib logo sz = Some foreground \<and>
              save_png lib foreground = Some cf \<and>
              files w' (icon_dir_of density @ ''/ic_launcher.png'') = Some c \<and>
              files w' (icon_dir_of density @ ''/ic_launcher_round.png'') = Some c \<and>
              files w' (icon_dir_of density @ ''/ic_launcher_foreground.png'') = Some cf) \<and>
           (\<forall>sz\<in>set favicon_sizes. \<exists>resized c.
              resize_lanczos lib logo (sz, sz) = Some resized \<and>
              save_png lib resized = Some c \<and>
              files w' (favicon_file sz) = Some c))) \<and>
     length output_files = 24 \<and> distinct output_files \<and>
     output_files =
       concat (map (\<lambda>(sz, density).
         [icon_dir_of density @ ''/ic_launcher.png'',
          icon_dir_of density @ ''/ic_launcher_round.png'',
          icon_dir_of density @ ''/ic_launcher_foreground.png'']) android_sizes) @
       map favicon_file favicon_sizes \<and>
     set created_dirs =
       {''android'', ''android/app'', ''android/app/src'', ''android/app/src/main'',
        ''android/app/src/main/res'',
        ''android/app/src/main/res/mipmap-ldpi'', ''android/app/src/main/res/mipmap-mdpi'',
        ''android/app/src/main/res/mipmap-hdpi'', ''android/app/src/main/res/mipmap-xhdpi'',
        ''android/app/src/main/res/mipmap-xxhdpi'', ''android/app/src/main/res/mipmap-xxxhdpi''}"
proof -
  define R where "R = run_generate_app_icons lib residue resolve logo_path w"
  define w' where "w' = state_of R"
  have frame: "effects_within (set created_dirs) (set output_files) w w'"
    unfolding w'_def R_def by (rule effects_within_generate)
  then have 1: "dirs w \<subseteq> dirs w'" and 2: "dirs w' \<subseteq> dirs w \<union> set created_dirs"
    and 3: "\<forall>p. p \<notin> set output_files \<longrightarrow> files w' p = files w p"
    by (simp_all add: effects_within_def)
  from 3 have 4: "resolve logo_path \<notin> set output_files \<longrightarrow>
      files w' (resolve logo_path) = files w (resolve logo_path)"
    by simp
  have 5: "dirs w' = dirs w \<union> set created_dirs \<and>
        (\<exists>logo. open_image lib (resolve logo_path) w = Some logo \<and>
           (\<forall>(sz, density)\<in>set android_sizes. \<exists>resized foreground c cf.
              resize_lanczos lib logo (sz, sz) = Some resized \<and>
              save_png lib resized = Some c \<and>
              make_foreground lib logo sz = Some foreground \<and>
              save_png lib foreground = Some cf \<and>
              files w' (icon_dir_of density @ ''/ic_launcher.png'') = Some c \<and>
              files w' (icon_dir_of density @ ''/ic_launcher_round.png'') = Some c \<and>
              files w' (icon_dir_of density @ ''/ic_launcher_foreground.png'') = Some cf) \<and>
           (\<forall>sz\<in>set favicon_sizes. \<exists>resized c.
              resize_lanczos lib logo (sz, sz) = Some resized \<and>
              save_png lib resized = Some c \<and>
              files w' (favicon_file sz) = Some c))"
    if ret: "returned R"
  proof -
    from ret have "R = Returned w'" unfolding w'_def by (simp add: returned_iff)
    then have "normal_return R = Some w'" by simp
    with normal_return_generate [where resolve = resolve and logo_path = logo_path
        and w = w and lib = lib and residue = residue, OF assms]
    have run: "generate_app_icons lib (resolve logo_path) w = Some w'"
      by (simp add: R_def)
    from assms run obtain logo where logo: "open_image lib (resolve logo_path) w = Some logo"
      and ok: "outputs_ok lib logo" and eq: "w' = run_result lib logo w"
      by (rule run_succeeded)
    have d: "dirs w' = dirs w \<union> set created_dirs" by (simp add: eq dirs_run_result)
    have a: "\<exists>resized foreground c cf.
              resize_lanczos lib logo (sz, sz) = Some resized \<and>
              save_png lib resized = Some c \<and>
              make_foreground lib logo sz = Some foreground \<and>
              save_png lib foreground = Some cf \<and>
              files w' (icon_dir_of density @ ''/ic_launcher.png'') = Some c \<and>
              files w' (icon_dir_of density @ ''/ic_launcher_round.png'') = Some c \<and>
              files w' (icon_dir_of density @ ''/ic_launcher_foreground.png'') = Some cf"
      if mem: "(sz, density) \<in> set android_sizes" for sz density
    proof -
      from outputs_android [OF ok mem] obtain c cf where
        c: "android_contents lib logo sz = Some (c, cf)" and
        o1: "outputs lib logo (icon_dir_of density @ ''/ic_launcher.png'') = Some c" and
        o2: "outputs lib logo (icon_dir_of density @ ''/ic_launcher_round.png'') = Some c" and
        o3: "outputs lib logo (icon_dir_of density @ ''/ic_launcher_foreground.png'') = Some cf"
        by blast
      from c obtain foreground resized where
        "make_foreground lib logo sz = Some foreground"
        "resize_lanczos lib logo (sz, sz) = Some resized"
        "save_png lib resized = Some c" "save_png lib foreground = Some cf"
        by (auto simp: android_contents_Some)
      with files_run_result_output [OF o1, of w] files_run_result_output [OF o2, of w]
        files_run_result_output [OF o3, of w]
      show ?thesis unfolding eq by blast
    qed
    have f: "\<exists>resized c.
              resize_lanczos lib logo (sz, sz) = Some resized \<and>
              save_png lib resized = Some c \<and>
              files w' (favicon_file sz) = Some c"
      if mem: "sz \<in> set favicon_sizes" for sz
    proof -
      from outputs_favicon [OF ok mem] obtain c where
        c: "favicon_content lib logo sz = Some c" and
        o: "outputs lib logo (favicon_file sz) = Some c"
        by blast
      from c obtain resized where "resize_lanczos lib logo (sz, sz) = Some resized"
        and "save_png lib resized = Some c"
        by (auto simp: favicon_content_Some)
      with files_run_result_output [OF o, of w] show ?thesis unfolding eq by blast
    qed
    from a have a': "\<forall>(sz, density)\<in>set android_sizes. \<exists>resized foreground c cf.
              resize_lanczos lib logo (sz, sz) = Some resized \<and>
              save_png lib resized = Some c \<and>
              make_foreground lib logo sz = Some foreground \<and>
              save_png lib foreground = Some cf \<and>
              files w' (icon_dir_of density @ ''/ic_launcher.png'') = Some c \<and>
              files w' (icon_dir_of density @ ''/ic_launcher_round.png'') = Some c \<and>
              files w' (icon_dir_of density @ ''/ic_launcher_foreground.png'') = Some cf"
      by blast
    from f have f': "\<forall>sz\<in>set favicon_sizes. \<exists>resized c.
              resize_lanczos lib logo (sz, sz) = Some resized \<and>
              save_png lib resized = Some c \<and>
              files w' (favicon_file sz) = Some c"
      by blast
    from d logo a' f' show ?thesis by blast
  qed
  have 6: "length output_files = 24" unfolding output_files_eq by simp
  have 7: "output_files =
       concat (map (\<lambda>(sz, density).
         [icon_dir_of density @ ''/ic_launcher.png'',
          icon_dir_of density @ ''/ic_launcher_round.png'',
          icon_dir_of density @ ''/ic_launcher_foreground.png'']) android_sizes) @
       map favicon_file favicon_sizes"
    by (simp add: output_files_def android_files_all_def android_files_def)
  from 5 have when_returned: "returned R \<longrightarrow> dirs w' = dirs w \<union> set created_dirs \<and>
        (\<exists>logo. open_image lib (resolve logo_path) w = Some logo \<and>
           (\<forall>(sz, density)\<in>set android_sizes. \<exists>resized foreground c cf.
              resize_lanczos lib logo (sz, sz) = Some resized \<and>
              save_png lib resized = Some c \<and>
              make_foreground lib logo sz = Some foreground \<and>
              save_png lib foreground = Some cf \<and>
              files w' (icon_dir_of density @ ''/ic_launcher.png'') = Some c \<and>
              files w' (icon_dir_of density @ ''/ic_launcher_round.png'') = Some c \<and>
              files w' (icon_dir_of density @ ''/ic_launcher_foreground.png'') = Some cf) \<and>
           (\<forall>sz\<in>set favicon_sizes. \<exists>resized c.
              resize_lanczos lib logo (sz, sz) = Some resized \<and>
              save_png lib resized = Some c \<and>
              files w' (favicon_file sz) = Some c))"
    by (rule impI)
  show ?thesis
    unfolding Let_def R_def [symmetric] w'_def [symmetric]
    by (intro conjI 1 2 3 4 when_returned 6 7 distinct_output_files created_dirs_set)
qed

theorem C9_effects_of_a_run_witness:
  "path_exists example_world (resolve_plain ''./www/assets/images/logo.png'') \<and>
   resolve_plain ''./www/assets/images/logo.png'' = ''www/assets/images/logo.png'' \<and>
   ''www/assets/images/logo.png'' \<notin> set output_files \<and>
   64 \<in> set favicon_sizes \<and>
   returned (run_generate_app_icons example_pil example_residue resolve_plain
     ''./www/assets/images/logo.png'' example_world) \<and>
   dirs (state_of (run_generate_app_icons example_pil example_residue resolve_plain
     ''./www/assets/images/logo.png'' example_world)) =
     dirs example_world \<union> set created_dirs \<and>
   files (state_of (run_generate_app_icons example_pil example_residue resolve_plain
     ''./www/assets/images/logo.png'' example_world)) ''www/assets/images/logo.png'' =
     files example_world ''www/assets/images/logo.png'' \<and>
   files (state_of (run_generate_app_icons example_pil example_residue resolve_plain
     ''./www/assets/images/logo.png'' example_world)) (favicon_file 64) =
     Some (example_logo\<lparr>im_size := (64, 64)\<rparr>)"
proof -
  define R where "R = run_generate_app_icons example_pil example_residue resolve_plain
     ''./www/assets/images/logo.png'' example_world"
  have ex: "path_exists example_world (resolve_plain ''./www/assets/images/logo.png'')"
    by (simp add: resolve_plain_logo example_exists)
  have n: "''www/assets/images/logo.png'' \<notin> set output_files"
    unfolding output_files_eq by simp
  have m: "64 \<in> set favicon_sizes" by (simp add: favicon_sizes_def)
  have ret: "returned R" unfolding R_def by (simp add: example_run_returned)
  note eff = C9_effects_of_a_run [where resolve = resolve_plain
      and logo_path = "''./www/assets/images/logo.png''" and w = example_world
      and lib = example_pil and residue = example_residue, OF ex,
      unfolded Let_def R_def [symmetric] resolve_plain_logo]
  note frame_source = eff [THEN conjunct2, THEN conjunct2, THEN conjunct2, THEN conjunct1]
  note when_returned = eff [THEN conjunct2, THEN conjunct2, THEN conjunct2, THEN conjunct2,
      THEN conjunct1, THEN mp, OF ret]
  from frame_source n have kept: "files (state_of R) ''www/assets/images/logo.png'' =
      files example_world ''www/assets/images/logo.png''"
    by (rule mp)
  from when_returned have d: "dirs (state_of R) = dirs example_world \<union> set created_dirs"
    by (rule conjunct1)
  from when_returned [THEN conjunct2] obtain logo where
    logo: "open_image example_pil ''www/assets/images/logo.png'' example_world = Some logo"
    and f: "\<forall>sz\<in>set favicon_sizes. \<exists>resized c.
        resize_lanczos example_pil logo (sz, sz) = Some resized \<and>
        save_png example_pil resized = Some c \<and>
        files (state_of R) (favicon_file sz) = Some c"
    by (elim exE conjE)
  from logo have eq: "logo = example_logo" by (simp add: example_open)
  from f m have "\<exists>resized c.
        resize_lanczos example_pil logo (64, 64) = Some resized \<and>
        save_png example_pil resized = Some c \<and>
        files (state_of R) (favicon_file 64) = Some c"
    by (rule bspec)
  then obtain resized c where
    "resize_lanczos example_pil example_logo (64, 64) = Some resized"
    "save_png example_pil resized = Some c"
    "files (state_of R) (favicon_file 64) = Some c"
    unfolding eq by (elim exE conjE)
  then have fav: "files (state_of R) (favicon_file 64) = Some (example_logo\<lparr>im_size := (64, 64)\<rparr>)"
    by (auto simp: example_pil_def)
  show ?thesis
    unfolding R_def [symmetric]
    by (intro conjI ex resolve_plain_logo n m ret d kept fav)
qed

end
